theory Spec2Isabelle
  imports Complex_Main
begin

section \<open>JavaScript values used by \<^verbatim>\<open>src/services/youtube/uploader.js\<close>\<close>

subsection \<open>Numbers\<close>

text \<open>
  A JavaScript number is an IEEE-754 double: \<open>NaN\<close>, the two infinities, or a finite
  value, kept here as the rational it denotes. The two zeros are one value \<open>Fin 0\<close>: in
  the code below a zero divisor is always \<open>+0\<close> (a file size, or a difference of two
  equal clock readings) and the sign of a zero result is never observed.
\<close>

datatype jsnum = NaN | PInf | NInf | Fin rat

text \<open>The number of binary digits of a positive integer.\<close>

function bitlen :: "int \<Rightarrow> int" where
  "bitlen n = (if n \<le> 0 then 0 else 1 + bitlen (n div 2))"
  by pat_completeness auto
termination
  by (relation "measure nat") auto

declare bitlen.simps [simp del]

text \<open>\<open>ilog2 a\<close> is the exponent \<open>e\<close> with \<open>2^e \<le> a < 2^(e+1)\<close>, for \<open>a > 0\<close>.\<close>

definition ilog2 :: "rat \<Rightarrow> int" where
  "ilog2 a = (if 1 \<le> a then bitlen \<lfloor>a\<rfloor> - 1 else - bitlen (\<lceil>1 / a\<rceil> - 1))"

definition pow2 :: "int \<Rightarrow> rat" where
  "pow2 e = (if 0 \<le> e then 2 ^ nat e else 1 / 2 ^ nat (- e))"

definition round_even :: "rat \<Rightarrow> int" where
  "round_even x =
     (let f = \<lfloor>x\<rfloor>; d = x - of_int f
      in if d < 1 / 2 then f else if 1 / 2 < d then f + 1 else if even f then f else f + 1)"

text \<open>
  Rounding of an exact result to the nearest double, ties to even: a significand \<open>m\<close> of
  at most 53 bits at the exponent \<open>e\<close> of the value, exponents down to \<open>-1022\<close> (below
  that the spacing stays \<open>2^-1074\<close>), and overflow to an infinity when the rounded
  value reaches \<open>2^1024\<close>.
\<close>

definition fl64 :: "rat \<Rightarrow> jsnum" where
  "fl64 q =
     (if q = 0 then Fin 0
      else let a = \<bar>q\<bar>;
               e = max (ilog2 a) (- 1022);
               u = pow2 (e - 52);
               m = round_even (a / u)
           in if 1024 \<le> e \<or> (e = 1023 \<and> m = 9007199254740992)
              then (if 0 < q then PInf else NInf)
              else Fin (if 0 < q then of_int m * u else - (of_int m * u)))"

text \<open>The operators \<^verbatim>\<open>/\<close>, \<^verbatim>\<open>*\<close>, \<^verbatim>\<open>-\<close>, \<^verbatim>\<open>%\<close> and \<^verbatim>\<open>>\<close>, \<^verbatim>\<open>>=\<close> on numbers.\<close>

fun js_div :: "jsnum \<Rightarrow> jsnum \<Rightarrow> jsnum" where
  "js_div NaN _ = NaN"
| "js_div _ NaN = NaN"
| "js_div (Fin a) (Fin b) =
     (if b = 0 then (if a = 0 then NaN else if 0 < a then PInf else NInf) else fl64 (a / b))"
| "js_div (Fin a) _ = Fin 0"
| "js_div PInf (Fin b) = (if 0 \<le> b then PInf else NInf)"
| "js_div NInf (Fin b) = (if 0 \<le> b then NInf else PInf)"
| "js_div _ _ = NaN"

fun js_mul :: "jsnum \<Rightarrow> jsnum \<Rightarrow> jsnum" where
  "js_mul NaN _ = NaN"
| "js_mul _ NaN = NaN"
| "js_mul (Fin a) (Fin b) = fl64 (a * b)"
| "js_mul (Fin a) PInf = (if a = 0 then NaN else if 0 < a then PInf else NInf)"
| "js_mul (Fin a) NInf = (if a = 0 then NaN else if 0 < a then NInf else PInf)"
| "js_mul PInf (Fin b) = (if b = 0 then NaN else if 0 < b then PInf else NInf)"
| "js_mul NInf (Fin b) = (if b = 0 then NaN else if 0 < b then NInf else PInf)"
| "js_mul PInf PInf = PInf"
| "js_mul NInf NInf = PInf"
| "js_mul _ _ = NInf"

fun js_sub :: "jsnum \<Rightarrow> jsnum \<Rightarrow> jsnum" where
  "js_sub NaN _ = NaN"
| "js_sub _ NaN = NaN"
| "js_sub (Fin a) (Fin b) = fl64 (a - b)"
| "js_sub (Fin a) PInf = NInf"
| "js_sub (Fin a) NInf = PInf"
| "js_sub PInf PInf = NaN"
| "js_sub NInf NInf = NaN"
| "js_sub PInf _ = PInf"
| "js_sub NInf _ = NInf"

text \<open>The remainder keeps the sign of the dividend and is exact.\<close>

definition trunc :: "rat \<Rightarrow> int" where
  "trunc q = (if 0 \<le> q then \<lfloor>q\<rfloor> else \<lceil>q\<rceil>)"

fun js_mod :: "jsnum \<Rightarrow> jsnum \<Rightarrow> jsnum" where
  "js_mod (Fin a) (Fin b) = (if b = 0 then NaN else Fin (a - b * of_int (trunc (a / b))))"
| "js_mod (Fin a) PInf = Fin a"
| "js_mod (Fin a) NInf = Fin a"
| "js_mod _ _ = NaN"

fun js_gt :: "jsnum \<Rightarrow> jsnum \<Rightarrow> bool" where
  "js_gt NaN _ = False"
| "js_gt _ NaN = False"
| "js_gt (Fin a) (Fin b) = (b < a)"
| "js_gt PInf PInf = False"
| "js_gt PInf _ = True"
| "js_gt (Fin a) NInf = True"
| "js_gt _ _ = False"

fun js_ge :: "jsnum \<Rightarrow> jsnum \<Rightarrow> bool" where
  "js_ge NaN _ = False"
| "js_ge _ NaN = False"
| "js_ge a b = (a = b \<or> js_gt a b)"

text \<open>
  \<^verbatim>\<open>Math.round\<close> rounds to the nearest integer, a half upwards; \<^verbatim>\<open>Math.floor\<close>
  rounds down. Both leave \<open>NaN\<close> and the infinities as they are, and their result on a
  double is a double again.
\<close>

fun Math_round :: "jsnum \<Rightarrow> jsnum" where
  "Math_round (Fin q) = Fin (of_int \<lfloor>q + 1 / 2\<rfloor>)"
| "Math_round x = x"

fun Math_floor :: "jsnum \<Rightarrow> jsnum" where
  "Math_floor (Fin q) = Fin (of_int \<lfloor>q\<rfloor>)"
| "Math_floor x = x"

text \<open>A non-negative integer (a byte count) and an integer (a clock reading) as numbers.\<close>

definition js_of_nat :: "nat \<Rightarrow> jsnum" where
  "js_of_nat n = fl64 (of_nat n)"

definition js_of_int :: "int \<Rightarrow> jsnum" where
  "js_of_int i = fl64 (of_int i)"

subsection \<open>Values and objects\<close>

text \<open>
  The values that metadata and remote records are made of. An object is the list of its
  own properties; a key that is absent reads as \<^verbatim>\<open>undefined\<close>.
\<close>

datatype jsval =
    JUndefined
  | JNull
  | JBool bool
  | JNum jsnum
  | JStr string
  | JArr "jsval list"
  | JObj "(string \<times> jsval) list"

type_synonym js_object = "(string \<times> jsval) list"

text \<open>Truthiness: \<^verbatim>\<open>undefined\<close>, \<^verbatim>\<open>null\<close>, \<^verbatim>\<open>false\<close>, \<open>0\<close>, \<open>NaN\<close> and \<^verbatim>\<open>''\<close> are falsy.\<close>

fun truthy :: "jsval \<Rightarrow> bool" where
  "truthy JUndefined = False"
| "truthy JNull = False"
| "truthy (JBool b) = b"
| "truthy (JNum n) = (n \<noteq> NaN \<and> n \<noteq> Fin 0)"
| "truthy (JStr s) = (s \<noteq> [])"
| "truthy (JArr xs) = True"
| "truthy (JObj ps) = True"

text \<open>\<^verbatim>\<open>a || b\<close>\<close>

definition js_or :: "jsval \<Rightarrow> jsval \<Rightarrow> jsval" where
  "js_or a b = (if truthy a then a else b)"

text \<open>
  \<^verbatim>\<open>obj.key\<close> on an object, for a key that \<^verbatim>\<open>Object.prototype\<close> does not define, and
  the built-in \<^verbatim>\<open>Object.prototype.hasOwnProperty\<close> applied to an object and a key. The
  objects are ordinary ones, with \<^verbatim>\<open>Object.prototype\<close> as their prototype.
\<close>

definition property :: "js_object \<Rightarrow> string \<Rightarrow> jsval" where
  "property obj k = (case map_of obj k of None \<Rightarrow> JUndefined | Some v \<Rightarrow> v)"

definition hasOwnProperty :: "js_object \<Rightarrow> string \<Rightarrow> bool" where
  "hasOwnProperty obj k = (map_of obj k \<noteq> None)"

text \<open>
  What the code throws: an \<^verbatim>\<open>Error\<close> with its message, the \<^verbatim>\<open>RangeError\<close> of
  \<^verbatim>\<open>toISOString\<close> on an invalid date, the \<^verbatim>\<open>TypeError\<close> of reading a property of
  \<^verbatim>\<open>undefined\<close> or \<^verbatim>\<open>null\<close> and of calling what is not a function, and whatever the
  remote client rejects with.
\<close>

datatype error =
    Error string
  | RangeError
  | TypeError
  | RemoteApiError jsval

text \<open>
  The call \<^verbatim>\<open>obj.hasOwnProperty(key)\<close>. The method is looked up on the object first:
  an own property named \<^verbatim>\<open>hasOwnProperty\<close> hides the built-in one. The values here are
  data, none of them is a function, so calling such a property throws a \<^verbatim>\<open>TypeError\<close>.
\<close>

definition call_hasOwnProperty :: "js_object \<Rightarrow> string \<Rightarrow> error + bool" where
  "call_hasOwnProperty obj k =
     (if hasOwnProperty obj ''hasOwnProperty'' then Inl TypeError
      else Inr (hasOwnProperty obj k))"

text \<open>\<^verbatim>\<open>v.key\<close> on any value, for a key that no built-in prototype defines.\<close>

fun js_get :: "jsval \<Rightarrow> string \<Rightarrow> error + jsval" where
  "js_get JUndefined k = Inl TypeError"
| "js_get JNull k = Inl TypeError"
| "js_get (JObj ps) k = Inr (property ps k)"
| "js_get v k = Inr JUndefined"

subsection \<open>Dates\<close>

text \<open>
  \<^verbatim>\<open>new Date(v)\<close> holds a time value, in milliseconds since the epoch, or is invalid
  (\<open>None\<close>). A number is truncated to an integer and is invalid beyond 8.64e15 in
  magnitude; \<^verbatim>\<open>null\<close> and the booleans convert to a number first; \<^verbatim>\<open>undefined\<close>
  is invalid. A string, and the primitive of an array or object, goes through the
  runtime's \<^verbatim>\<open>Date.parse\<close>, which is a parameter here.
\<close>

definition TimeClip :: "jsnum \<Rightarrow> int option" where
  "TimeClip n =
     (case n of
        Fin q \<Rightarrow> if 8640000000000000 < \<bar>q\<bar> then None else Some (trunc q)
      | _ \<Rightarrow> None)"

definition new_Date :: "(jsval \<Rightarrow> jsnum) \<Rightarrow> jsval \<Rightarrow> int option" where
  "new_Date parse v =
     (case v of
        JUndefined \<Rightarrow> None
      | JNull \<Rightarrow> Some 0
      | JBool b \<Rightarrow> Some (if b then 1 else 0)
      | JNum n \<Rightarrow> TimeClip n
      | _ \<Rightarrow> TimeClip (parse v))"

text \<open>
  \<^verbatim>\<open>toISOString\<close>: the calendar date of a time value in UTC, printed as
  \<^verbatim>\<open>YYYY-MM-DDTHH:mm:ss.sssZ\<close>, the year with a sign and six digits outside 0..9999.
  An invalid date throws a \<^verbatim>\<open>RangeError\<close>.
\<close>

definition digit :: "int \<Rightarrow> char" where
  "digit d = ''0123456789'' ! nat (d mod 10)"

definition pad2 :: "int \<Rightarrow> string" where
  "pad2 n = [digit (n div 10), digit n]"

definition pad3 :: "int \<Rightarrow> string" where
  "pad3 n = [digit (n div 100), digit (n div 10), digit n]"

definition pad4 :: "int \<Rightarrow> string" where
  "pad4 n = [digit (n div 1000), digit (n div 100), digit (n div 10), digit n]"

definition pad6 :: "int \<Rightarrow> string" where
  "pad6 n = [digit (n div 100000), digit (n div 10000), digit (n div 1000),
             digit (n div 100), digit (n div 10), digit n]"

text \<open>Year, month and day of the month of a day number (days since 1970-01-01).\<close>

definition civil :: "int \<Rightarrow> int \<times> int \<times> int" where
  "civil day =
     (let z = day + 719468;
          era = z div 146097;
          doe = z mod 146097;
          yoe = (doe - doe div 1460 + doe div 36524 - doe div 146096) div 365;
          doy = doe - (365 * yoe + yoe div 4 - yoe div 100);
          mp = (5 * doy + 2) div 153;
          d = doy - (153 * mp + 2) div 5 + 1;
          m = (if mp < 10 then mp + 3 else mp - 9);
          y = yoe + era * 400
      in (if m \<le> 2 then y + 1 else y, m, d))"

definition isoYear :: "int \<Rightarrow> string" where
  "isoYear y =
     (if 0 \<le> y \<and> y \<le> 9999 then pad4 y
      else (if y < 0 then ''-'' else ''+'') @ pad6 \<bar>y\<bar>)"

definition isoString :: "int \<Rightarrow> string" where
  "isoString t =
     (let (y, m, d) = civil (t div 86400000);
          ms = t mod 86400000
      in isoYear y @ ''-'' @ pad2 m @ ''-'' @ pad2 d @ ''T''
         @ pad2 (ms div 3600000) @ '':'' @ pad2 (ms div 60000 mod 60) @ '':''
         @ pad2 (ms div 1000 mod 60) @ ''.'' @ pad3 (ms mod 1000) @ ''Z'')"

definition toISOString :: "int option \<Rightarrow> error + string" where
  "toISOString date = (case date of None \<Rightarrow> Inl RangeError | Some t \<Rightarrow> Inr (isoString t))"

section \<open>The request body of \<^verbatim>\<open>uploadVideo\<close>\<close>

text \<open>
  The object \<^verbatim>\<open>requestMetadata\<close> of lines 31--56. The two properties that the code
  adds only under a condition, \<^verbatim>\<open>publishAt\<close> and \<^verbatim>\<open>commentModerationStatus\<close>, are
  \<open>None\<close> while absent.
\<close>

record video_snippet =
  title :: jsval
  description :: jsval
  tags :: jsval
  categoryId :: jsval
  defaultLanguage :: jsval
  defaultAudioLanguage :: jsval

record video_status =
  privacyStatus :: jsval
  embeddable :: bool
  publicStatsViewable :: bool
  selfDeclaredMadeForKids :: jsval
  publishAt :: "string option"
  commentModerationStatus :: "string option"

record requestMetadata =
  snippet :: video_snippet
  status :: video_status

text \<open>Lines 31--46: the metadata over the defaults.\<close>

definition standardMetadata :: "js_object \<Rightarrow> requestMetadata" where
  "standardMetadata metadata =
     \<lparr> snippet =
         \<lparr> title = js_or (property metadata ''title'') (JStr ''Untitled Video''),
           description = js_or (property metadata ''description'') (JStr ''''),
           tags = js_or (property metadata ''tags'') (JArr []),
           categoryId = js_or (property metadata ''categoryId'') (JStr ''22''),
           defaultLanguage = js_or (property metadata ''language'') (JStr ''de''),
           defaultAudioLanguage = js_or (property metadata ''language'') (JStr ''de'') \<rparr>,
       status =
         \<lparr> privacyStatus = js_or (property metadata ''privacy'') (JStr ''private''),
           embeddable = (property metadata ''embeddable'' \<noteq> JBool False),
           publicStatsViewable = (property metadata ''publicStatsViewable'' \<noteq> JBool False),
           selfDeclaredMadeForKids = js_or (property metadata ''madeForKids'') (JBool False),
           publishAt = None,
           commentModerationStatus = None \<rparr> \<rparr>"

text \<open>Lines 49--51: the scheduled publication.\<close>

definition schedule :: "(jsval \<Rightarrow> jsnum) \<Rightarrow> js_object \<Rightarrow> requestMetadata \<Rightarrow> error + requestMetadata" where
  "schedule parse metadata r =
     (if truthy (property metadata ''publishAt'')
      then (case toISOString (new_Date parse (property metadata ''publishAt'')) of
              Inl e \<Rightarrow> Inl e
            | Inr s \<Rightarrow> Inr (r\<lparr>status := (status r)\<lparr>publishAt := Some s\<rparr>\<rparr>))
      else Inr r)"

text \<open>
  Lines 54--56: the comments. The condition calls \<^verbatim>\<open>metadata.hasOwnProperty\<close>, which
  throws when the metadata has an own property of that name.
\<close>

definition comments :: "js_object \<Rightarrow> requestMetadata \<Rightarrow> error + requestMetadata" where
  "comments metadata r =
     (case call_hasOwnProperty metadata ''allowComments'' of
        Inl e \<Rightarrow> Inl e
      | Inr own \<Rightarrow>
          Inr (if own \<and> \<not> truthy (property metadata ''allowComments'')
               then r\<lparr>status := (status r)\<lparr>commentModerationStatus := Some ''disabled''\<rparr>\<rparr>
               else r))"

text \<open>Lines 31--56 in their order: an error of one step ends the construction.\<close>

definition buildRequestMetadata :: "(jsval \<Rightarrow> jsnum) \<Rightarrow> js_object \<Rightarrow> error + requestMetadata" where
  "buildRequestMetadata parse metadata =
     (case schedule parse metadata (standardMetadata metadata) of
        Inl e \<Rightarrow> Inl e
      | Inr r \<Rightarrow> comments metadata r)"

section \<open>Upload progress\<close>

text \<open>
  A template literal is kept as its chunks: the literal text and the numbers substituted
  into it, which the runtime prints in its own way.
\<close>

datatype piece = Lit string | Num jsnum

type_synonym template = "piece list"

text \<open>The object handed to \<^verbatim>\<open>progressCallback\<close> (lines 105--112).\<close>

record progressInfo =
  progress :: jsnum
  bytesRead :: jsnum
  bytesTotal :: jsnum
  status :: string
  timeRemaining :: template
  speed :: template

text \<open>
  Lines 82--112, for a progress event with \<^verbatim>\<open>evt.bytesRead = evt_bytesRead\<close> handled
  when \<^verbatim>\<open>Date.now()\<close> reads \<open>now\<close>.
\<close>

definition progressReport :: "nat \<Rightarrow> int \<Rightarrow> jsnum \<Rightarrow> nat \<Rightarrow> int \<Rightarrow> progressInfo" where
  "progressReport fileSize startTime currentProgress evt_bytesRead now =
     (let elapsedTime = js_sub (js_of_int now) (js_of_int startTime);
          bytesPerMs = js_div (js_of_nat evt_bytesRead) elapsedTime;
          remainingBytes = js_sub (js_of_nat fileSize) (js_of_nat evt_bytesRead);
          remainingTimeMs =
            (if js_gt bytesPerMs (Fin 0) then js_div remainingBytes bytesPerMs else Fin 0);
          timeRemainingText =
            (if js_gt bytesPerMs (Fin 0)
             then (let remainingMinutes = Math_floor (js_div remainingTimeMs (Fin 60000));
                       remainingSeconds =
                         Math_floor (js_div (js_mod remainingTimeMs (Fin 60000)) (Fin 1000))
                   in [Lit ''Noch '', Num remainingMinutes, Lit '' Min '',
                       Num remainingSeconds, Lit '' Sek''])
             else [Lit ''Berechne...''])
      in \<lparr> progress = currentProgress,
           bytesRead = js_of_nat evt_bytesRead,
           bytesTotal = js_of_nat fileSize,
           status =
             (if js_ge currentProgress (Fin 100) then ''Verarbeite Video...''
              else if js_ge currentProgress (Fin 95) then ''Fast fertig...''
              else ''Uploading...''),
           timeRemaining =
             (if js_ge currentProgress (Fin 100) then [Lit ''YouTube verarbeitet dein Video...'']
              else timeRemainingText),
           speed =
             [Num (js_div
                     (Math_round
                        (js_mul (js_div (js_div (js_mul bytesPerMs (Fin 1000)) (Fin 1024)) (Fin 1024))
                           (Fin 100)))
                     (Fin 100)),
              Lit '' MB/s''] \<rparr>)"

text \<open>
  The handler \<^verbatim>\<open>onUploadProgress\<close> (lines 74--115) on one event: the new value of
  \<^verbatim>\<open>lastReportedProgress\<close>, and the object given to the callback if it is called.
  An event is \<^verbatim>\<open>evt.bytesRead\<close> with the clock reading at that moment; the argument
  \<^verbatim>\<open>progressCallback\<close> is a function or is absent, which is all the handler asks of it.
\<close>

definition onUploadProgress ::
  "nat \<Rightarrow> int \<Rightarrow> bool \<Rightarrow> jsnum \<Rightarrow> nat \<times> int \<Rightarrow> jsnum \<times> progressInfo option" where
  "onUploadProgress fileSize startTime progressCallback lastReportedProgress evt =
     (let currentProgress =
            Math_round (js_mul (js_div (js_of_nat (fst evt)) (js_of_nat fileSize)) (Fin 100))
      in if js_gt currentProgress lastReportedProgress
         then (currentProgress,
               if progressCallback
               then Some (progressReport fileSize startTime currentProgress (fst evt) (snd evt))
               else None)
         else (lastReportedProgress, None))"

text \<open>The calls of the callback over the events of one upload, in order.\<close>

fun reports :: "nat \<Rightarrow> int \<Rightarrow> bool \<Rightarrow> jsnum \<Rightarrow> (nat \<times> int) list \<Rightarrow> progressInfo list" where
  "reports fileSize startTime progressCallback lastReportedProgress [] = []"
| "reports fileSize startTime progressCallback lastReportedProgress (evt # evts) =
     (case onUploadProgress fileSize startTime progressCallback lastReportedProgress evt of
        (last', None) \<Rightarrow> reports fileSize startTime progressCallback last' evts
      | (last', Some info) \<Rightarrow> info # reports fileSize startTime progressCallback last' evts)"

section \<open>The class \<^verbatim>\<open>YouTubeUploader\<close>\<close>

text \<open>The instance: the fields set by the constructor (lines 6--13).\<close>

record youTubeUploader =
  authClient :: jsval
  currentUpload :: jsval

definition constructor :: "jsval \<Rightarrow> youTubeUploader" where
  "constructor a = \<lparr> authClient = a, currentUpload = JNull \<rparr>"

text \<open>The requests to the remote service, with the parameters the code passes.\<close>

datatype api_call =
    VideosInsert string requestMetadata string
  | ThumbnailsSet jsval string
  | VideoCategoriesList string jsval
  | PlaylistsList string bool nat
  | PlaylistItemsInsert string jsval string jsval
  | ChannelsList string bool

text \<open>
  What a call meets outside the program: the files that exist with their sizes, the
  clock when the upload starts, the progress events the transport raises while it sends
  the file, and the answers of the remote service: \<^verbatim>\<open>res.data\<close> of an insertion, and
  \<^verbatim>\<open>res.data.items\<close> of a listing (a list, or \<open>None\<close> when the answer has no items);
  \<open>Inl\<close> is a request that the client rejects, with the error body it carries.
\<close>

record env =
  files :: "string \<Rightarrow> nat option"
  clock :: int
  events :: "(nat \<times> int) list"
  respond :: "api_call \<Rightarrow> jsval + jsval"
  listing :: "api_call \<Rightarrow> jsval + jsval list option"
  dateParse :: "jsval \<Rightarrow> jsnum"

text \<open>
  What a method does: the value it resolves to or the error it rejects with, the
  requests it issued, the objects it gave to the progress callback, and the instance
  afterwards. The \<^verbatim>\<open>catch\<close> blocks log and rethrow the same error.
\<close>

record 'a outcome =
  result :: "error + 'a"
  requests :: "api_call list"
  reported :: "progressInfo list"
  instance_after :: youTubeUploader

definition awaited :: "jsval + 'a \<Rightarrow> error + 'a" where
  "awaited res = (case res of Inl body \<Rightarrow> Inl (RemoteApiError body) | Inr data \<Rightarrow> Inr data)"

definition failed :: "youTubeUploader \<Rightarrow> error \<Rightarrow> 'a outcome" where
  "failed this e = \<lparr> result = Inl e, requests = [], reported = [], instance_after = this \<rparr>"

definition uploadVideo ::
  "env \<Rightarrow> youTubeUploader \<Rightarrow> string \<Rightarrow> js_object \<Rightarrow> bool \<Rightarrow> jsval outcome" where
  "uploadVideo env this videoPath metadata progressCallback =
     (case files env videoPath of
        None \<Rightarrow> failed this (Error (''Datei nicht gefunden: '' @ videoPath))
      | Some fileSize \<Rightarrow>
          (case buildRequestMetadata (dateParse env) metadata of
             Inl e \<Rightarrow> failed this e
           | Inr requestMetadata \<Rightarrow>
               (let call = VideosInsert ''snippet,status'' requestMetadata videoPath
                in \<lparr> result = awaited (respond env call),
                     requests = [call],
                     reported = reports fileSize (clock env) progressCallback (Fin 0) (events env),
                     instance_after = this \<rparr>)))"

definition setThumbnail :: "env \<Rightarrow> youTubeUploader \<Rightarrow> jsval \<Rightarrow> string \<Rightarrow> jsval outcome" where
  "setThumbnail env this videoId thumbnailPath =
     (case files env thumbnailPath of
        None \<Rightarrow> failed this (Error (''Thumbnail-Datei nicht gefunden: '' @ thumbnailPath))
      | Some _ \<Rightarrow>
          (let call = ThumbnailsSet videoId thumbnailPath
           in \<lparr> result = awaited (respond env call), requests = [call], reported = [],
                instance_after = this \<rparr>))"




definition addVideoToPlaylist :: "env \<Rightarrow> youTubeUploader \<Rightarrow> jsval \<Rightarrow> jsval \<Rightarrow> jsval outcome" where
  "addVideoToPlaylist env this videoId playlistId =
     (let call = PlaylistItemsInsert ''snippet'' playlistId ''youtube#video'' videoId
      in \<lparr> result = awaited (respond env call), requests = [call], reported = [],
           instance_after = this \<rparr>)"

text \<open>Lines 258--268, on \<^verbatim>\<open>res.data.items\<close>.\<close>

definition quota :: "jsval list option \<Rightarrow> error + jsval" where
  "quota items =
     (case items of
        None \<Rightarrow> Inl (Error ''Kein Kanal gefunden'')
      | Some [] \<Rightarrow> Inl (Error ''Kein Kanal gefunden'')
      | Some (channel # _) \<Rightarrow>
          (case js_get channel ''id'' of
             Inl e \<Rightarrow> Inl e
           | Inr channelId \<Rightarrow>
               (case js_get channel ''statistics'' of
                  Inl e \<Rightarrow> Inl e
                | Inr statistics \<Rightarrow>
                    (case js_get statistics ''videoCount'' of
                       Inl e \<Rightarrow> Inl e
                     | Inr totalVideos \<Rightarrow>
                         (case js_get channel ''contentDetails'' of
                            Inl e \<Rightarrow> Inl e
                          | Inr contentDetails \<Rightarrow>
                              (case js_get contentDetails ''contentRatings'' of
                                 Inl e \<Rightarrow> Inl e
                               | Inr quotaInfo \<Rightarrow>
                                   Inr (JObj [(''channelId'', channelId),
                                              (''totalVideos'', totalVideos),
                                              (''quotaInfo'', quotaInfo)])))))))"

definition getUploadQuota :: "env \<Rightarrow> youTubeUploader \<Rightarrow> jsval outcome" where
  "getUploadQuota env this =
     (let call = ChannelsList ''contentDetails,statistics'' True
      in \<lparr> result = (case awaited (listing env call) of Inl e \<Rightarrow> Inl e | Inr items \<Rightarrow> quota items),
           requests = [call], reported = [], instance_after = this \<rparr>)"

section \<open>The shape of a timestamp\<close>

text \<open>
  A string fits a pattern when it has the pattern's length and characters, a digit
  standing where the pattern has a \<open>9\<close>. An ISO-8601 timestamp in UTC is
  \<^verbatim>\<open>YYYY-MM-DDTHH:mm:ss.sssZ\<close>, or the same with a signed year of six digits.
\<close>

definition isDigit :: "char \<Rightarrow> bool" where
  "isDigit c = (c \<in> set ''0123456789'')"

fun fits :: "string \<Rightarrow> string \<Rightarrow> bool" where
  "fits [] [] = True"
| "fits (p # ps) (c # cs) = ((if p = CHR ''9'' then isDigit c else c = p) \<and> fits ps cs)"
| "fits _ _ = False"

definition isoTimestampUTC :: "string \<Rightarrow> bool" where
  "isoTimestampUTC s =
     (fits ''9999-99-99T99:99:99.999Z'' s \<or>
      fits ''+999999-99-99T99:99:99.999Z'' s \<or>
      fits ''-999999-99-99T99:99:99.999Z'' s)"

section \<open>Example surroundings\<close>

text \<open>
  A runtime whose \<^verbatim>\<open>Date.parse\<close> accepts nothing and one that knows one string, a
  remote service that accepts every insertion and lists two items, a file system with one file, and the listings of an
  account with one channel and with none.
\<close>

definition noDates :: "jsval \<Rightarrow> jsnum" where
  "noDates v = NaN"

definition newYear :: "jsval \<Rightarrow> jsnum" where
  "newYear v = (if v = JStr ''2026-01-01T00:00:00.000Z'' then Fin 1767225600000 else NaN)"

definition created :: "api_call \<Rightarrow> jsval + jsval" where
  "created call = Inr (JObj [(''id'', JStr ''abc'')])"

definition twoItems :: "api_call \<Rightarrow> jsval + jsval list option" where
  "twoItems call = Inr (Some [JObj [(''id'', JStr ''1'')], JObj [(''id'', JStr ''2'')]])"

definition oneFile :: "string \<Rightarrow> nat \<Rightarrow> string \<Rightarrow> nat option" where
  "oneFile path n p = (if p = path then Some n else None)"

definition exampleEnv :: "nat \<Rightarrow> (nat \<times> int) list \<Rightarrow> env" where
  "exampleEnv n evts =
     \<lparr> files = oneFile ''video.mp4'' n, clock = 0, events = evts,
       respond = created, listing = twoItems, dateParse = noDates \<rparr>"

definition oneChannel :: "api_call \<Rightarrow> jsval + jsval list option" where
  "oneChannel call =
     Inr (Some [JObj [(''id'', JStr ''UC123''),
                      (''statistics'', JObj [(''videoCount'', JStr ''42'')]),
                      (''contentDetails'', JObj [(''contentRatings'', JObj [])])]])"

definition noChannel :: "api_call \<Rightarrow> jsval + jsval list option" where
  "noChannel call = Inr (Some [])"

section \<open>Properties\<close>

subsection \<open>Reading the metadata\<close>

lemma property_absent: "\<not> hasOwnProperty obj k \<Longrightarrow> property obj k = JUndefined"
  by (simp add: hasOwnProperty_def property_def)

lemma js_or_undefined: "js_or JUndefined d = d"
  by (simp add: js_or_def)

lemma snippet_schedule: "schedule parse metadata r = Inr r' \<Longrightarrow> snippet r' = snippet r"
  by (auto simp: schedule_def split: if_splits sum.splits)

lemma snippet_comments: "comments metadata r = Inr r' \<Longrightarrow> snippet r' = snippet r"
  by (auto simp: comments_def split: sum.splits)

lemma snippet_build:
  "buildRequestMetadata parse metadata = Inr r \<Longrightarrow> snippet r = snippet (standardMetadata metadata)"
proof -
  assume b: "buildRequestMetadata parse metadata = Inr r"
  then obtain r' where s: "schedule parse metadata (standardMetadata metadata) = Inr r'"
    and c: "comments metadata r' = Inr r"
    by (auto simp: buildRequestMetadata_def split: sum.splits)
  from snippet_comments [OF c] snippet_schedule [OF s] show ?thesis
    by simp
qed

lemma status_build:
  "buildRequestMetadata parse metadata = Inr r \<Longrightarrow>
     privacyStatus (requestMetadata.status r)
       = privacyStatus (requestMetadata.status (standardMetadata metadata)) \<and>
     embeddable (requestMetadata.status r)
       = embeddable (requestMetadata.status (standardMetadata metadata)) \<and>
     publicStatsViewable (requestMetadata.status r)
       = publicStatsViewable (requestMetadata.status (standardMetadata metadata)) \<and>
     selfDeclaredMadeForKids (requestMetadata.status r)
       = selfDeclaredMadeForKids (requestMetadata.status (standardMetadata metadata))"
  by (auto simp: buildRequestMetadata_def schedule_def comments_def call_hasOwnProperty_def
      split: sum.splits if_splits)

lemma uploadVideo_request:
  "requests (uploadVideo env this videoPath metadata cb) = [VideosInsert part r path] \<Longrightarrow>
     buildRequestMetadata (dateParse env) metadata = Inr r \<and> part = ''snippet,status'' \<and> path = videoPath"
  by (auto simp: uploadVideo_def failed_def Let_def split: option.splits sum.splits)

lemma example_file: "files (exampleEnv n evts) ''video.mp4'' = Some n"
  by (simp add: exampleEnv_def oneFile_def)

text \<open>
  Claim C1. Whatever optional field the metadata passed to \<^verbatim>\<open>uploadVideo\<close> omits, the
  request body that is sent carries the default for it: the title \<^verbatim>\<open>'Untitled Video'\<close>,
  an empty description, no tags, the category \<^verbatim>\<open>'22'\<close>, the language \<^verbatim>\<open>'de'\<close> for both
  the content and the audio, the privacy \<^verbatim>\<open>'private'\<close>, embeddable and
  publicStatsViewable true, and selfDeclaredMadeForKids false.
\<close>

theorem uploadVideo_defaults:
  assumes "requests (uploadVideo env this videoPath metadata progressCallback) = [VideosInsert part r path]"
  shows "(\<not> hasOwnProperty metadata ''title'' \<longrightarrow> title (snippet r) = JStr ''Untitled Video'') \<and>
         (\<not> hasOwnProperty metadata ''description'' \<longrightarrow> description (snippet r) = JStr '''') \<and>
         (\<not> hasOwnProperty metadata ''tags'' \<longrightarrow> tags (snippet r) = JArr []) \<and>
         (\<not> hasOwnProperty metadata ''categoryId'' \<longrightarrow> categoryId (snippet r) = JStr ''22'') \<and>
         (\<not> hasOwnProperty metadata ''language'' \<longrightarrow>
            defaultLanguage (snippet r) = JStr ''de'' \<and> defaultAudioLanguage (snippet r) = JStr ''de'') \<and>
         (\<not> hasOwnProperty metadata ''privacy'' \<longrightarrow>
            privacyStatus (requestMetadata.status r) = JStr ''private'') \<and>
         (\<not> hasOwnProperty metadata ''embeddable'' \<longrightarrow> embeddable (requestMetadata.status r)) \<and>
         (\<not> hasOwnProperty metadata ''publicStatsViewable'' \<longrightarrow>
            publicStatsViewable (requestMetadata.status r)) \<and>
         (\<not> hasOwnProperty metadata ''madeForKids'' \<longrightarrow>
            selfDeclaredMadeForKids (requestMetadata.status r) = JBool False)"
proof -
  from assms have b: "buildRequestMetadata (dateParse env) metadata = Inr r"
    by (simp add: uploadVideo_request)
  have s: "snippet r = snippet (standardMetadata metadata)"
    using b by (rule snippet_build)
  note t = status_build [OF b]
  show ?thesis
    by (simp add: s t standardMetadata_def property_absent js_or_undefined)
qed

lemma example_upload_empty:
  "requests (uploadVideo (exampleEnv 1000 []) (constructor JNull) ''video.mp4'' [] True) =
     [VideosInsert ''snippet,status''
        \<lparr> snippet =
            \<lparr> title = JStr ''Untitled Video'', description = JStr '''', tags = JArr [],
              categoryId = JStr ''22'', defaultLanguage = JStr ''de'',
              defaultAudioLanguage = JStr ''de'' \<rparr>,
          status =
            \<lparr> privacyStatus = JStr ''private'', embeddable = True, publicStatsViewable = True,
              selfDeclaredMadeForKids = JBool False, publishAt = None,
              commentModerationStatus = None \<rparr> \<rparr>
        ''video.mp4'']"
  by (simp add: uploadVideo_def example_file buildRequestMetadata_def schedule_def
      standardMetadata_def comments_def call_hasOwnProperty_def property_def hasOwnProperty_def js_or_def Let_def)

text \<open>The empty metadata object, uploaded: every default at once.\<close>

theorem uploadVideo_defaults_witness:
  "requests (uploadVideo (exampleEnv 1000 []) (constructor JNull) ''video.mp4'' [] True) =
     [VideosInsert ''snippet,status''
        \<lparr> snippet =
            \<lparr> title = JStr ''Untitled Video'', description = JStr '''', tags = JArr [],
              categoryId = JStr ''22'', defaultLanguage = JStr ''de'',
              defaultAudioLanguage = JStr ''de'' \<rparr>,
          status =
            \<lparr> privacyStatus = JStr ''private'', embeddable = True, publicStatsViewable = True,
              selfDeclaredMadeForKids = JBool False, publishAt = None,
              commentModerationStatus = None \<rparr> \<rparr>
        ''video.mp4''] \<and>
   \<not> hasOwnProperty [] ''title'' \<and> \<not> hasOwnProperty [] ''privacy'' \<and>
   \<not> hasOwnProperty [] ''madeForKids''"
  using uploadVideo_defaults [OF example_upload_empty]
  by (simp add: example_upload_empty hasOwnProperty_def)

subsection \<open>Files that do not exist\<close>

text \<open>
  Claim C4. When the path names no existing file, \<^verbatim>\<open>uploadVideo\<close> (for the video) and
  \<^verbatim>\<open>setThumbnail\<close> (for the image) fail with the not-found error, and no request to the
  remote service is issued.
\<close>

theorem missing_file_no_request:
  "(files env videoPath = None \<longrightarrow>
      uploadVideo env this videoPath metadata progressCallback =
        \<lparr> result = Inl (Error (''Datei nicht gefunden: '' @ videoPath)), requests = [],
          reported = [], instance_after = this \<rparr>) \<and>
   (files env thumbnailPath = None \<longrightarrow>
      setThumbnail env this videoId thumbnailPath =
        \<lparr> result = Inl (Error (''Thumbnail-Datei nicht gefunden: '' @ thumbnailPath)),
          requests = [], reported = [], instance_after = this \<rparr>)"
  by (simp add: uploadVideo_def setThumbnail_def failed_def)

theorem missing_file_no_request_witness:
  "files (exampleEnv 1000 []) ''nothing.mp4'' = None \<and>
   result (uploadVideo (exampleEnv 1000 []) (constructor JNull) ''nothing.mp4'' [] True)
     = Inl (Error ''Datei nicht gefunden: nothing.mp4'') \<and>
   requests (uploadVideo (exampleEnv 1000 []) (constructor JNull) ''nothing.mp4'' [] True) = [] \<and>
   result (setThumbnail (exampleEnv 1000 []) (constructor JNull) (JStr ''abc'') ''nothing.png'')
     = Inl (Error ''Thumbnail-Datei nicht gefunden: nothing.png'') \<and>
   requests (setThumbnail (exampleEnv 1000 []) (constructor JNull) (JStr ''abc'') ''nothing.png'') = []"
proof -
  have h1: "files (exampleEnv 1000 []) ''nothing.mp4'' = None"
    by (simp add: exampleEnv_def oneFile_def)
  have h2: "files (exampleEnv 1000 []) ''nothing.png'' = None"
    by (simp add: exampleEnv_def oneFile_def)
  show ?thesis
    using h1 h2
      missing_file_no_request [of "exampleEnv 1000 []" "''nothing.mp4''" "constructor JNull" "[]" True
        "''nothing.png''" "JStr ''abc''"]
    by simp
qed

subsection \<open>Comments\<close>

text \<open>
  Claim C5. When the metadata has the key \<^verbatim>\<open>allowComments\<close> with a falsy value, the
  status block of the request has \<^verbatim>\<open>commentModerationStatus: 'disabled'\<close>. The example:
  a file of 100 MB uploaded with a title, a description, the privacy \<^verbatim>\<open>'unlisted'\<close> and
  \<^verbatim>\<open>allowComments: false\<close> sends the caller's title and description, the tags \<^verbatim>\<open>[]\<close>,
  the category \<^verbatim>\<open>'22'\<close>, \<^verbatim>\<open>privacyStatus: 'unlisted'\<close> and
  \<^verbatim>\<open>commentModerationStatus: 'disabled'\<close>.
\<close>

theorem comments_disabled:
  "(hasOwnProperty metadata ''allowComments'' \<longrightarrow> \<not> truthy (property metadata ''allowComments'') \<longrightarrow>
      requests (uploadVideo env this videoPath metadata progressCallback) = [VideosInsert part r path] \<longrightarrow>
      commentModerationStatus (requestMetadata.status r) = Some ''disabled'') \<and>
   (files env videoPath = Some 104857600 \<longrightarrow> t \<noteq> [] \<longrightarrow>
      requests (uploadVideo env this videoPath
                  [(''title'', JStr t), (''description'', JStr d), (''privacy'', JStr ''unlisted''),
                   (''allowComments'', JBool False)] progressCallback) =
        [VideosInsert ''snippet,status''
           \<lparr> snippet =
               \<lparr> title = JStr t, description = JStr d, tags = JArr [],
                 categoryId = JStr ''22'', defaultLanguage = JStr ''de'',
                 defaultAudioLanguage = JStr ''de'' \<rparr>,
             status =
               \<lparr> privacyStatus = JStr ''unlisted'', embeddable = True,
                 publicStatsViewable = True, selfDeclaredMadeForKids = JBool False,
                 publishAt = None, commentModerationStatus = Some ''disabled'' \<rparr> \<rparr>
           videoPath])"
proof (intro conjI impI)
  assume h: "hasOwnProperty metadata ''allowComments''" "\<not> truthy (property metadata ''allowComments'')"
    and q: "requests (uploadVideo env this videoPath metadata progressCallback) = [VideosInsert part r path]"
  from q have "buildRequestMetadata (dateParse env) metadata = Inr r"
    by (simp add: uploadVideo_request)
  with h show "commentModerationStatus (requestMetadata.status r) = Some ''disabled''"
    by (auto simp: buildRequestMetadata_def comments_def call_hasOwnProperty_def
        split: sum.splits if_splits)
next
  assume "files env videoPath = Some 104857600" "t \<noteq> []"
  then show "requests (uploadVideo env this videoPath
                  [(''title'', JStr t), (''description'', JStr d), (''privacy'', JStr ''unlisted''),
                   (''allowComments'', JBool False)] progressCallback) =
        [VideosInsert ''snippet,status''
           \<lparr> snippet =
               \<lparr> title = JStr t, description = JStr d, tags = JArr [],
                 categoryId = JStr ''22'', defaultLanguage = JStr ''de'',
                 defaultAudioLanguage = JStr ''de'' \<rparr>,
             status =
               \<lparr> privacyStatus = JStr ''unlisted'', embeddable = True,
                 publicStatsViewable = True, selfDeclaredMadeForKids = JBool False,
                 publishAt = None, commentModerationStatus = Some ''disabled'' \<rparr> \<rparr>
           videoPath]"
    by (simp add: uploadVideo_def buildRequestMetadata_def schedule_def
      standardMetadata_def comments_def call_hasOwnProperty_def property_def hasOwnProperty_def js_or_def Let_def)
qed

theorem comments_disabled_witness:
  "hasOwnProperty [(''title'', JStr ''Holiday''), (''description'', JStr ''At the sea''),
                   (''privacy'', JStr ''unlisted''), (''allowComments'', JBool False)] ''allowComments'' \<and>
   \<not> truthy (property [(''title'', JStr ''Holiday''), (''description'', JStr ''At the sea''),
                   (''privacy'', JStr ''unlisted''), (''allowComments'', JBool False)] ''allowComments'') \<and>
   files (exampleEnv 104857600 []) ''video.mp4'' = Some 104857600 \<and>
   requests (uploadVideo (exampleEnv 104857600 []) (constructor JNull) ''video.mp4''
               [(''title'', JStr ''Holiday''), (''description'', JStr ''At the sea''),
                (''privacy'', JStr ''unlisted''), (''allowComments'', JBool False)] True) =
     [VideosInsert ''snippet,status''
        \<lparr> snippet =
            \<lparr> title = JStr ''Holiday'', description = JStr ''At the sea'', tags = JArr [],
              categoryId = JStr ''22'', defaultLanguage = JStr ''de'',
              defaultAudioLanguage = JStr ''de'' \<rparr>,
          status =
            \<lparr> privacyStatus = JStr ''unlisted'', embeddable = True,
              publicStatsViewable = True, selfDeclaredMadeForKids = JBool False,
              publishAt = None, commentModerationStatus = Some ''disabled'' \<rparr> \<rparr>
        ''video.mp4'']"
  using comments_disabled [of "[(''title'', JStr ''Holiday''), (''description'', JStr ''At the sea''),
                   (''privacy'', JStr ''unlisted''), (''allowComments'', JBool False)]"
      "exampleEnv 104857600 []" "constructor JNull" "''video.mp4''" True _ _ _ "''Holiday''" "''At the sea''"]
  by (simp add: example_file hasOwnProperty_def property_def)

subsection \<open>Scheduled publication\<close>

lemma isDigit_digit: "isDigit (digit d)"
proof -
  have "nat (d mod 10) < length ''0123456789''" by simp
  then show ?thesis
    unfolding digit_def isDigit_def by (rule nth_mem)
qed

lemma fits_rest:
  "fits ''-99-99T99:99:99.999Z''
     (''-'' @ pad2 m @ ''-'' @ pad2 d @ ''T'' @ pad2 h @ '':'' @ pad2 mi @ '':'' @ pad2 s @ ''.'' @ pad3 ms @ ''Z'')"
  by (simp add: pad2_def pad3_def isDigit_digit)

lemma fits_year:
  "fits p s \<Longrightarrow>
     fits (''9999'' @ p) (isoYear y @ s) \<or> fits (''+999999'' @ p) (isoYear y @ s)
       \<or> fits (''-999999'' @ p) (isoYear y @ s)"
  by (simp add: isoYear_def pad4_def pad6_def isDigit_digit)

lemma isoString_shape: "isoTimestampUTC (isoString t)"
proof -
  obtain y m d where c: "civil (t div 86400000) = (y, m, d)"
    by (cases "civil (t div 86400000)")
  show ?thesis
    unfolding isoTimestampUTC_def isoString_def c Let_def prod.case
    using fits_year [OF fits_rest, of y] by simp
qed

lemma isoString_0: "isoString 0 = ''1970-01-01T00:00:00.000Z''"
  by code_simp

lemma isoString_day: "isoString 1767225600000 = ''2026-01-01T00:00:00.000Z''"
  by code_simp

lemma publishAt_build:
  assumes "buildRequestMetadata parse metadata = Inr r"
  shows "(truthy (property metadata ''publishAt'') \<longrightarrow>
            (\<exists>t. new_Date parse (property metadata ''publishAt'') = Some t \<and>
                 publishAt (requestMetadata.status r) = Some (isoString t))) \<and>
         (\<not> truthy (property metadata ''publishAt'') \<longrightarrow>
            publishAt (requestMetadata.status r) = None)"
  using assms
  by (auto simp: buildRequestMetadata_def schedule_def comments_def call_hasOwnProperty_def
      toISOString_def standardMetadata_def split: sum.splits if_splits option.splits)

lemma build_succeeds:
  "(\<exists>r. buildRequestMetadata parse metadata = Inr r) =
     ((truthy (property metadata ''publishAt'') \<longrightarrow>
         new_Date parse (property metadata ''publishAt'') \<noteq> None) \<and>
      \<not> hasOwnProperty metadata ''hasOwnProperty'')"
  by (auto simp: buildRequestMetadata_def schedule_def comments_def call_hasOwnProperty_def
      toISOString_def split: sum.splits if_splits option.splits)

lemma upload_requests:
  "(\<exists>r. requests (uploadVideo env this videoPath metadata cb)
           = [VideosInsert ''snippet,status'' r videoPath]) =
     (files env videoPath \<noteq> None \<and> (\<exists>r. buildRequestMetadata (dateParse env) metadata = Inr r))"
  by (auto simp: uploadVideo_def failed_def Let_def split: option.splits sum.splits)

text \<open>
  Claim C6, as the code has it. The code schedules only a \<^verbatim>\<open>publishAt\<close> that is truthy.
  In every upload request that is sent, for a metadata whose \<^verbatim>\<open>publishAt\<close> is truthy,
  \<^verbatim>\<open>status.publishAt\<close> is the ISO string of the date made from it, which has the shape
  of an ISO-8601 timestamp in UTC; for a metadata whose \<^verbatim>\<open>publishAt\<close> is falsy the
  request has no \<^verbatim>\<open>publishAt\<close>. The request is sent exactly when the file exists, a
  truthy \<^verbatim>\<open>publishAt\<close> makes a valid date, and the metadata has no own property named
  \<^verbatim>\<open>hasOwnProperty\<close>.
\<close>

theorem publishAt_normalized:
  "(requests (uploadVideo env this videoPath metadata progressCallback) = [VideosInsert part r path] \<longrightarrow>
      (truthy (property metadata ''publishAt'') \<longrightarrow>
         (\<exists>t. new_Date (dateParse env) (property metadata ''publishAt'') = Some t \<and>
              publishAt (requestMetadata.status r) = Some (isoString t) \<and>
              isoTimestampUTC (isoString t))) \<and>
      (\<not> truthy (property metadata ''publishAt'') \<longrightarrow>
         publishAt (requestMetadata.status r) = None)) \<and>
   ((\<exists>r. requests (uploadVideo env this videoPath metadata progressCallback)
            = [VideosInsert ''snippet,status'' r videoPath]) =
      (files env videoPath \<noteq> None \<and>
       (truthy (property metadata ''publishAt'') \<longrightarrow>
          new_Date (dateParse env) (property metadata ''publishAt'') \<noteq> None) \<and>
       \<not> hasOwnProperty metadata ''hasOwnProperty''))"
proof (intro conjI impI)
  assume q: "requests (uploadVideo env this videoPath metadata progressCallback) = [VideosInsert part r path]"
  then have b: "buildRequestMetadata (dateParse env) metadata = Inr r"
    by (simp add: uploadVideo_request)
  {
    assume "truthy (property metadata ''publishAt'')"
    with publishAt_build [OF b]
    show "\<exists>t. new_Date (dateParse env) (property metadata ''publishAt'') = Some t \<and>
              publishAt (requestMetadata.status r) = Some (isoString t) \<and>
              isoTimestampUTC (isoString t)"
      by (auto simp: isoString_shape)
  }
  {
    assume "\<not> truthy (property metadata ''publishAt'')"
    with publishAt_build [OF b]
    show "publishAt (requestMetadata.status r) = None"
      by simp
  }
next
  show "(\<exists>r. requests (uploadVideo env this videoPath metadata progressCallback)
            = [VideosInsert ''snippet,status'' r videoPath]) =
      (files env videoPath \<noteq> None \<and>
       (truthy (property metadata ''publishAt'') \<longrightarrow>
          new_Date (dateParse env) (property metadata ''publishAt'') \<noteq> None) \<and>
       \<not> hasOwnProperty metadata ''hasOwnProperty'')"
    unfolding upload_requests build_succeeds ..
qed

text \<open>
  The claim as stated fails for a valid time that is falsy: \<^verbatim>\<open>publishAt: 0\<close> is the valid
  date 1970-01-01T00:00:00.000Z, and the request is sent without \<^verbatim>\<open>publishAt\<close>.
\<close>

theorem publishAt_zero_counterexample:
  "new_Date noDates (JNum (Fin 0)) = Some 0 \<and>
   toISOString (Some 0) = Inr ''1970-01-01T00:00:00.000Z'' \<and>
   requests (uploadVideo (exampleEnv 1000 []) (constructor JNull) ''video.mp4''
               [(''publishAt'', JNum (Fin 0))] True) =
     [VideosInsert ''snippet,status''
        \<lparr> snippet =
            \<lparr> title = JStr ''Untitled Video'', description = JStr '''', tags = JArr [],
              categoryId = JStr ''22'', defaultLanguage = JStr ''de'',
              defaultAudioLanguage = JStr ''de'' \<rparr>,
          status =
            \<lparr> privacyStatus = JStr ''private'', embeddable = True, publicStatsViewable = True,
              selfDeclaredMadeForKids = JBool False, publishAt = None,
              commentModerationStatus = None \<rparr> \<rparr>
        ''video.mp4'']"
  by (simp add: new_Date_def TimeClip_def trunc_def toISOString_def isoString_0
      uploadVideo_def example_file buildRequestMetadata_def schedule_def
      standardMetadata_def comments_def call_hasOwnProperty_def property_def hasOwnProperty_def
      js_or_def Let_def)

text \<open>
  A date given as a string, one given as a number of milliseconds, an empty string, and
  a metadata with an own property \<^verbatim>\<open>hasOwnProperty\<close>, for which no request is sent.
\<close>

lemma example_schedule_string:
  "requests (uploadVideo ((exampleEnv 1000 []) \<lparr> dateParse := newYear \<rparr>) (constructor JNull)
               ''video.mp4'' [(''publishAt'', JStr ''2026-01-01T00:00:00.000Z'')] True) =
     [VideosInsert ''snippet,status''
        \<lparr> snippet =
            \<lparr> title = JStr ''Untitled Video'', description = JStr '''', tags = JArr [],
              categoryId = JStr ''22'', defaultLanguage = JStr ''de'',
              defaultAudioLanguage = JStr ''de'' \<rparr>,
          status =
            \<lparr> privacyStatus = JStr ''private'', embeddable = True, publicStatsViewable = True,
              selfDeclaredMadeForKids = JBool False, publishAt = Some ''2026-01-01T00:00:00.000Z'',
              commentModerationStatus = None \<rparr> \<rparr>
        ''video.mp4'']"
  by (simp add: new_Date_def newYear_def TimeClip_def trunc_def toISOString_def isoString_day
      uploadVideo_def exampleEnv_def oneFile_def buildRequestMetadata_def schedule_def
      standardMetadata_def comments_def call_hasOwnProperty_def property_def hasOwnProperty_def
      js_or_def Let_def)

lemma example_schedule_number:
  "requests (uploadVideo (exampleEnv 1000 []) (constructor JNull) ''video.mp4''
               [(''publishAt'', JNum (Fin 1767225600000))] True) =
     [VideosInsert ''snippet,status''
        \<lparr> snippet =
            \<lparr> title = JStr ''Untitled Video'', description = JStr '''', tags = JArr [],
              categoryId = JStr ''22'', defaultLanguage = JStr ''de'',
              defaultAudioLanguage = JStr ''de'' \<rparr>,
          status =
            \<lparr> privacyStatus = JStr ''private'', embeddable = True, publicStatsViewable = True,
              selfDeclaredMadeForKids = JBool False, publishAt = Some ''2026-01-01T00:00:00.000Z'',
              commentModerationStatus = None \<rparr> \<rparr>
        ''video.mp4'']"
  by (simp add: new_Date_def TimeClip_def trunc_def toISOString_def isoString_day
      uploadVideo_def exampleEnv_def oneFile_def buildRequestMetadata_def schedule_def
      standardMetadata_def comments_def call_hasOwnProperty_def property_def hasOwnProperty_def
      js_or_def Let_def)

lemma example_schedule_empty:
  "requests (uploadVideo (exampleEnv 1000 []) (constructor JNull) ''video.mp4''
               [(''publishAt'', JStr '''')] True) =
     [VideosInsert ''snippet,status''
        \<lparr> snippet =
            \<lparr> title = JStr ''Untitled Video'', description = JStr '''', tags = JArr [],
              categoryId = JStr ''22'', defaultLanguage = JStr ''de'',
              defaultAudioLanguage = JStr ''de'' \<rparr>,
          status =
            \<lparr> privacyStatus = JStr ''private'', embeddable = True, publicStatsViewable = True,
              selfDeclaredMadeForKids = JBool False, publishAt = None,
              commentModerationStatus = None \<rparr> \<rparr>
        ''video.mp4'']"
  by (simp add: uploadVideo_def exampleEnv_def oneFile_def buildRequestMetadata_def schedule_def
      standardMetadata_def comments_def call_hasOwnProperty_def property_def hasOwnProperty_def
      js_or_def Let_def)

lemma example_schedule_shadowed:
  "uploadVideo (exampleEnv 1000 []) (constructor JNull) ''video.mp4''
     [(''hasOwnProperty'', JBool True), (''publishAt'', JNum (Fin 1767225600000))] True =
     \<lparr> result = Inl TypeError, requests = [], reported = [], instance_after = constructor JNull \<rparr>"
  by (simp add: new_Date_def TimeClip_def trunc_def toISOString_def
      uploadVideo_def exampleEnv_def oneFile_def buildRequestMetadata_def schedule_def
      standardMetadata_def comments_def call_hasOwnProperty_def property_def hasOwnProperty_def
      js_or_def failed_def Let_def)

theorem publishAt_normalized_witness:
  "requests (uploadVideo ((exampleEnv 1000 []) \<lparr> dateParse := newYear \<rparr>) (constructor JNull)
               ''video.mp4'' [(''publishAt'', JStr ''2026-01-01T00:00:00.000Z'')] True) =
     [VideosInsert ''snippet,status''
        \<lparr> snippet =
            \<lparr> title = JStr ''Untitled Video'', description = JStr '''', tags = JArr [],
              categoryId = JStr ''22'', defaultLanguage = JStr ''de'',
              defaultAudioLanguage = JStr ''de'' \<rparr>,
          status =
            \<lparr> privacyStatus = JStr ''private'', embeddable = True, publicStatsViewable = True,
              selfDeclaredMadeForKids = JBool False, publishAt = Some ''2026-01-01T00:00:00.000Z'',
              commentModerationStatus = None \<rparr> \<rparr>
        ''video.mp4''] \<and>
   truthy (property [(''publishAt'', JStr ''2026-01-01T00:00:00.000Z'')] ''publishAt'') \<and>
   new_Date (dateParse ((exampleEnv 1000 []) \<lparr> dateParse := newYear \<rparr>))
     (property [(''publishAt'', JStr ''2026-01-01T00:00:00.000Z'')] ''publishAt'')
     = Some 1767225600000 \<and>
   isoString 1767225600000 = ''2026-01-01T00:00:00.000Z'' \<and>
   isoTimestampUTC ''2026-01-01T00:00:00.000Z'' \<and>
   requests (uploadVideo (exampleEnv 1000 []) (constructor JNull) ''video.mp4''
               [(''publishAt'', JNum (Fin 1767225600000))] True) =
     [VideosInsert ''snippet,status''
        \<lparr> snippet =
            \<lparr> title = JStr ''Untitled Video'', description = JStr '''', tags = JArr [],
              categoryId = JStr ''22'', defaultLanguage = JStr ''de'',
              defaultAudioLanguage = JStr ''de'' \<rparr>,
          status =
            \<lparr> privacyStatus = JStr ''private'', embeddable = True, publicStatsViewable = True,
              selfDeclaredMadeForKids = JBool False, publishAt = Some ''2026-01-01T00:00:00.000Z'',
              commentModerationStatus = None \<rparr> \<rparr>
        ''video.mp4''] \<and>
   \<not> truthy (property [(''publishAt'', JStr '''')] ''publishAt'') \<and>
   requests (uploadVideo (exampleEnv 1000 []) (constructor JNull) ''video.mp4''
               [(''publishAt'', JStr '''')] True) =
     [VideosInsert ''snippet,status''
        \<lparr> snippet =
            \<lparr> title = JStr ''Untitled Video'', description = JStr '''', tags = JArr [],
              categoryId = JStr ''22'', defaultLanguage = JStr ''de'',
              defaultAudioLanguage = JStr ''de'' \<rparr>,
          status =
            \<lparr> privacyStatus = JStr ''private'', embeddable = True, publicStatsViewable = True,
              selfDeclaredMadeForKids = JBool False, publishAt = None,
              commentModerationStatus = None \<rparr> \<rparr>
        ''video.mp4''] \<and>
   hasOwnProperty [(''hasOwnProperty'', JBool True), (''publishAt'', JNum (Fin 1767225600000))]
     ''hasOwnProperty'' \<and>
   uploadVideo (exampleEnv 1000 []) (constructor JNull) ''video.mp4''
     [(''hasOwnProperty'', JBool True), (''publishAt'', JNum (Fin 1767225600000))] True =
     \<lparr> result = Inl TypeError, requests = [], reported = [], instance_after = constructor JNull \<rparr>"
proof -
  let ?env = "(exampleEnv 1000 []) \<lparr> dateParse := newYear \<rparr>"
  let ?metadata = "[(''publishAt'', JStr ''2026-01-01T00:00:00.000Z'')]"
  let ?shadowed = "[(''hasOwnProperty'', JBool True), (''publishAt'', JNum (Fin 1767225600000))]"
  have h2: "truthy (property ?metadata ''publishAt'')"
    by (simp add: property_def)
  have h3: "new_Date (dateParse ?env) (property ?metadata ''publishAt'') = Some 1767225600000"
    by (simp add: property_def new_Date_def newYear_def TimeClip_def trunc_def)
  from publishAt_normalized [of ?env "constructor JNull" "''video.mp4''" ?metadata True]
    example_schedule_string h2 h3
  have shape: "isoTimestampUTC (isoString 1767225600000)"
    by auto
  then have shape': "isoTimestampUTC ''2026-01-01T00:00:00.000Z''"
    by (simp only: isoString_day)
  have e2: "\<not> truthy (property [(''publishAt'', JStr '''')] ''publishAt'')"
    by (simp add: property_def)
  from publishAt_normalized
    [of "exampleEnv 1000 []" "constructor JNull" "''video.mp4''" "[(''publishAt'', JStr '''')]" True]
    example_schedule_empty e2
  have unscheduled:
    "\<exists>r. requests (uploadVideo (exampleEnv 1000 []) (constructor JNull) ''video.mp4''
                    [(''publishAt'', JStr '''')] True) = [VideosInsert ''snippet,status'' r ''video.mp4''] \<and>
         publishAt (requestMetadata.status r) = None"
    by simp
  have s1: "hasOwnProperty ?shadowed ''hasOwnProperty''"
    by (simp add: hasOwnProperty_def)
  from publishAt_normalized [of "exampleEnv 1000 []" "constructor JNull" "''video.mp4''" ?shadowed True]
    s1
  have none: "\<not> (\<exists>r. requests (uploadVideo (exampleEnv 1000 []) (constructor JNull) ''video.mp4''
                          ?shadowed True) = [VideosInsert ''snippet,status'' r ''video.mp4''])"
    by simp
  from shape' h2 h3 e2 s1 isoString_day example_schedule_string example_schedule_number
    example_schedule_empty example_schedule_shadowed
  show ?thesis
    by (intro conjI)
qed

subsection \<open>Channel, categories and playlists\<close>

lemma js_get_not_Error: "js_get v k \<noteq> Inl (Error m)"
  by (cases v) simp_all

lemma quota_channel_not_Error: "quota (Some (channel # others)) \<noteq> Inl (Error m)"
  using js_get_not_Error
  by (auto simp: quota_def split: sum.splits)

lemma quota_no_channel:
  "(quota items = Inl (Error ''Kein Kanal gefunden'')) = (items = None \<or> items = Some [])"
proof (cases items)
  case None
  then show ?thesis by (simp add: quota_def)
next
  case (Some xs)
  then show ?thesis
    by (cases xs) (simp_all add: quota_def quota_channel_not_Error [unfolded quota_def, simplified])
qed

text \<open>
  Claim C7. \<^verbatim>\<open>getUploadQuota\<close> fails with the error \<^verbatim>\<open>'Kein Kanal gefunden'\<close> (no channel
  found) exactly when the channel listing comes back without items or with an empty
  list. When the first channel is a record with its \<^verbatim>\<open>statistics\<close> and
  \<^verbatim>\<open>contentDetails\<close> parts, the result is the object of its \<^verbatim>\<open>id\<close>, its
  \<^verbatim>\<open>statistics.videoCount\<close> and its \<^verbatim>\<open>contentDetails.contentRatings\<close>.
\<close>

theorem getUploadQuota_channel:
  "((result (getUploadQuota env this) = Inl (Error ''Kein Kanal gefunden'')) =
      (listing env (ChannelsList ''contentDetails,statistics'' True) = Inr None \<or>
       listing env (ChannelsList ''contentDetails,statistics'' True) = Inr (Some []))) \<and>
   (listing env (ChannelsList ''contentDetails,statistics'' True) = Inr (Some (JObj channel # others)) \<longrightarrow>
    property channel ''statistics'' = JObj statistics \<longrightarrow>
    property channel ''contentDetails'' = JObj contentDetails \<longrightarrow>
      result (getUploadQuota env this) =
        Inr (JObj [(''channelId'', property channel ''id''),
                   (''totalVideos'', property statistics ''videoCount''),
                   (''quotaInfo'', property contentDetails ''contentRatings'')]))"
proof (intro conjI impI)
  show "(result (getUploadQuota env this) = Inl (Error ''Kein Kanal gefunden'')) =
      (listing env (ChannelsList ''contentDetails,statistics'' True) = Inr None \<or>
       listing env (ChannelsList ''contentDetails,statistics'' True) = Inr (Some []))"
    by (cases "listing env (ChannelsList ''contentDetails,statistics'' True)")
       (simp_all add: getUploadQuota_def awaited_def quota_no_channel Let_def)
next
  assume "listing env (ChannelsList ''contentDetails,statistics'' True) = Inr (Some (JObj channel # others))"
    "property channel ''statistics'' = JObj statistics"
    "property channel ''contentDetails'' = JObj contentDetails"
  then show "result (getUploadQuota env this) =
        Inr (JObj [(''channelId'', property channel ''id''),
                   (''totalVideos'', property statistics ''videoCount''),
                   (''quotaInfo'', property contentDetails ''contentRatings'')])"
    by (simp add: getUploadQuota_def awaited_def quota_def Let_def)
qed


subsection \<open>The field \<^verbatim>\<open>currentUpload\<close>\<close>

text \<open>
  Claim C9 says that \<^verbatim>\<open>uploadVideo\<close> stores the upload in progress in the field
  \<^verbatim>\<open>currentUpload\<close>, as the comment at line 12 also says. No line of the class assigns
  the field after the constructor: \<^verbatim>\<open>uploadVideo\<close> leaves the instance as it was, so the
  field of a new instance is still \<^verbatim>\<open>null\<close> afterwards.
\<close>

theorem currentUpload_never_assigned:
  "instance_after (uploadVideo env this videoPath metadata progressCallback) = this \<and>
   currentUpload (instance_after (uploadVideo env (constructor a) videoPath metadata progressCallback)) = JNull"
  by (simp add: uploadVideo_def failed_def constructor_def Let_def split: option.splits sum.splits)

subsection \<open>Rounding of integers\<close>

lemma bitlen_nonneg: "0 \<le> bitlen n"
  by (induction n rule: bitlen.induct) (subst bitlen.simps, simp)

lemma bitlen_pos: "0 < n \<Longrightarrow> 1 \<le> bitlen n"
  using bitlen_nonneg [of "n div 2"] by (subst bitlen.simps) simp

lemma bitlen_le: "n < 2 ^ m \<Longrightarrow> bitlen n \<le> int m"
proof (induction m arbitrary: n)
  case 0
  then show ?case by (subst bitlen.simps) simp
next
  case (Suc m)
  have "n div 2 < 2 ^ m" using Suc.prems by simp
  from Suc.IH [OF this] show ?case
    by (subst bitlen.simps) simp
qed

lemma round_even_of_int: "round_even (of_int n) = n"
  by (simp add: round_even_def)

text \<open>An integer below \<open>2^53\<close> in magnitude is a double.\<close>

lemma fl64_of_int:
  assumes "\<bar>k\<bar> < 2 ^ 53"
  shows "fl64 (of_int k) = Fin (of_int k)"
proof (cases "k = 0")
  case True
  then show ?thesis by (simp add: fl64_def)
next
  case False
  define e where "e = bitlen \<bar>k\<bar> - 1"
  define j where "j = nat (52 - e)"
  have pos: "0 < \<bar>k\<bar>" using False by simp
  have e0: "0 \<le> e" using bitlen_pos [OF pos] by (simp add: e_def)
  have e52: "e \<le> 52" using bitlen_le [OF assms] by (simp add: e_def)
  have a: "\<bar>(of_int k :: rat)\<bar> = of_int \<bar>k\<bar>" by simp
  have one: "(1 :: rat) \<le> of_int \<bar>k\<bar>" using pos by (simp only: of_int_1_le_iff)
  have il: "ilog2 (of_int \<bar>k\<bar>) = e"
    using one by (simp add: ilog2_def e_def del: of_int_abs)
  have mx: "max e (- 1022) = e" using e0 by simp
  have u: "pow2 (e - 52) = 1 / 2 ^ j"
  proof (cases "e = 52")
    case True
    then show ?thesis by (simp add: pow2_def j_def)
  next
    case False
    then have "e - 52 < 0" using e52 by simp
    then have "\<not> 0 \<le> e - 52" by simp
    moreover have "nat (- (e - 52)) = j" by (simp add: j_def)
    ultimately show ?thesis by (simp add: pow2_def)
  qed
  have q: "of_int \<bar>k\<bar> / (1 / 2 ^ j) = (of_int (\<bar>k\<bar> * 2 ^ j) :: rat)"
    by simp
  have m: "round_even (of_int \<bar>k\<bar> / (1 / 2 ^ j)) = \<bar>k\<bar> * 2 ^ j"
    unfolding q by (rule round_even_of_int)
  have scaled: "(of_int (\<bar>k\<bar> * 2 ^ j) :: rat) * (1 / 2 ^ j) = of_int \<bar>k\<bar>"
    by simp
  have nonzero: "(of_int k :: rat) \<noteq> 0" using False by simp
  have finite: "\<not> (1024 \<le> e \<or> e = 1023 \<and> \<bar>k\<bar> * 2 ^ j = 9007199254740992)"
    using e52 by simp
  show ?thesis
    unfolding fl64_def Let_def a il mx u m scaled
    using nonzero finite by (auto simp del: of_int_abs)
qed

lemma js_of_nat_exact: "n < 2 ^ 53 \<Longrightarrow> js_of_nat n = Fin (of_nat n)"
  using fl64_of_int [of "int n"] by (simp add: js_of_nat_def)

lemma js_of_int_exact: "\<bar>i\<bar> < 2 ^ 53 \<Longrightarrow> js_of_int i = Fin (of_int i)"
  by (simp add: js_of_int_def fl64_of_int)

lemma js_of_nat_0: "js_of_nat 0 = Fin 0"
  by (simp add: js_of_nat_def fl64_def)

lemma fl64_numeral:
  "(numeral n :: int) < 9007199254740992 \<Longrightarrow> fl64 (numeral n) = Fin (numeral n)"
  using fl64_of_int [of "numeral n"] by simp

lemma fl64_1: "fl64 1 = Fin 1"
  using fl64_of_int [of 1] by simp

subsection \<open>Progress reports\<close>

lemma js_gt_trans: "js_gt a b \<Longrightarrow> js_gt b c \<Longrightarrow> js_gt a c"
  by (cases a; cases b; cases c) auto

lemma js_gt_irrefl: "\<not> js_gt a a"
  by (cases a) auto

lemma progress_progressReport [simp]:
  "progress (progressReport fileSize startTime p b now) = p"
  by (simp add: progressReport_def Let_def)

lemma onUploadProgress_cases:
  assumes "onUploadProgress fileSize startTime cb lrp evt = (lrp', out)"
  shows "(lrp' = lrp \<and> out = None) \<or>
         (js_gt lrp' lrp \<and> (out = None \<or> (\<exists>info. out = Some info \<and> progress info = lrp')))"
  using assms by (auto simp: onUploadProgress_def Let_def split: if_splits)

lemma reports_above:
  "info \<in> set (reports fileSize startTime cb lrp evts) \<Longrightarrow> js_gt (progress info) lrp"
proof (induction evts arbitrary: lrp)
  case Nil
  then show ?case by simp
next
  case (Cons evt evts)
  obtain lrp' out where s: "onUploadProgress fileSize startTime cb lrp evt = (lrp', out)"
    by (cases "onUploadProgress fileSize startTime cb lrp evt")
  from onUploadProgress_cases [OF s] Cons.prems Cons.IH [of lrp'] show ?case
    by (auto simp: s) (blast intro: js_gt_trans)+
qed

lemma reports_increasing:
  "sorted_wrt (\<lambda>a b. js_gt (progress b) (progress a)) (reports fileSize startTime cb lrp evts)"
proof (induction evts arbitrary: lrp)
  case Nil
  then show ?case by simp
next
  case (Cons evt evts)
  obtain lrp' out where s: "onUploadProgress fileSize startTime cb lrp evt = (lrp', out)"
    by (cases "onUploadProgress fileSize startTime cb lrp evt")
  from onUploadProgress_cases [OF s] Cons.IH [of lrp'] show ?case
    by (auto simp: s dest: reports_above)
qed

lemma increasing_distinct:
  "sorted_wrt (\<lambda>a b. js_gt b a) xs \<Longrightarrow> distinct xs"
  by (induction xs) (auto simp: js_gt_irrefl)

text \<open>
  Claim C2. For every upload and every sequence of progress events, the percentages
  given to the progress callback are strictly increasing, so none is reported twice and
  none out of order; and the handler reports only a percentage strictly greater than
  the last one reported, which it then remembers.
\<close>

theorem progress_strictly_increasing:
  "sorted_wrt (\<lambda>a b. js_gt b a)
     (map progress (reported (uploadVideo env this videoPath metadata progressCallback))) \<and>
   distinct (map progress (reported (uploadVideo env this videoPath metadata progressCallback))) \<and>
   (onUploadProgress fileSize startTime progressCallback lastReportedProgress evt = (lrp', Some info) \<longrightarrow>
      js_gt (progress info) lastReportedProgress \<and> lrp' = progress info)"
proof -
  have 1: "sorted_wrt (\<lambda>a b. js_gt b a)
     (map progress (reported (uploadVideo env this videoPath metadata progressCallback)))"
    by (simp add: uploadVideo_def failed_def Let_def sorted_wrt_map reports_increasing
        split: option.splits sum.splits)
  have 3: "onUploadProgress fileSize startTime progressCallback lastReportedProgress evt = (lrp', Some info) \<longrightarrow>
      js_gt (progress info) lastReportedProgress \<and> lrp' = progress info"
    by (auto dest: onUploadProgress_cases)
  from 1 increasing_distinct [OF 1] 3 show ?thesis by blast
qed

subsection \<open>Evaluating the rounding on numerals\<close>

lemma floor_rat_divide: "\<lfloor>(numeral a / numeral b :: rat)\<rfloor> = numeral a div numeral b"
  by (metis floor_divide_of_int_eq of_int_numeral)

lemma floor_rat_one_divide: "\<lfloor>(1 / numeral b :: rat)\<rfloor> = 1 div numeral b"
  by (metis floor_divide_of_int_eq of_int_1 of_int_numeral)

lemma ceiling_rat_divide: "\<lceil>(numeral a / numeral b :: rat)\<rceil> = - (- numeral a div numeral b)"
  unfolding ceiling_def
  by (metis divide_minus_left floor_divide_of_int_eq of_int_neg_numeral of_int_numeral)

lemma bitlen_nonpos: "n \<le> 0 \<Longrightarrow> bitlen n = 0"
  by (simp add: bitlen.simps)

lemma bitlen_rec: "0 < n \<Longrightarrow> bitlen n = 1 + bitlen (n div 2)"
  by (subst bitlen.simps) simp

lemmas fl64_eval = fl64_def ilog2_def pow2_def round_even_def Let_def bitlen_rec bitlen_nonpos
  floor_rat_divide floor_rat_one_divide ceiling_rat_divide

lemma fl64_0: "fl64 0 = Fin 0"
  by (simp add: fl64_def)

text \<open>Rounding is symmetric in the sign.\<close>

lemma fl64_minus:
  "fl64 (- q) = (case fl64 q of Fin r \<Rightarrow> Fin (- r) | PInf \<Rightarrow> NInf | NInf \<Rightarrow> PInf | NaN \<Rightarrow> NaN)"
  by (auto simp: fl64_def Let_def)

lemma floor_rat_minus_divide: "\<lfloor>(- (numeral a / numeral b) :: rat)\<rfloor> = - numeral a div numeral b"
  by (metis divide_minus_left floor_divide_of_int_eq of_int_neg_numeral of_int_numeral)

text \<open>Quotients that are doubles, and 2.38, which is not.\<close>

lemma fl64_fractions:
  "fl64 (1 / 4) = Fin (1 / 4)"
  "fl64 (1 / 2) = Fin (1 / 2)"
  "fl64 (3 / 4) = Fin (3 / 4)"
  "fl64 (5 / 2) = Fin (5 / 2)"
  by (simp_all add: fl64_eval)

lemma fl64_speed:
  "fl64 (78125 / 32) = Fin (78125 / 32)"
  "fl64 (78125 / 32768) = Fin (78125 / 32768)"
  "fl64 (1953125 / 8192) = Fin (1953125 / 8192)"
  "fl64 (119 / 50) = Fin (2679641778285445 / 1125899906842624)"
  by (simp_all add: fl64_eval)

lemma fl64_slow:
  "fl64 (625 / 256) = Fin (625 / 256)"
  "fl64 (625 / 262144) = Fin (625 / 262144)"
  "fl64 (15625 / 65536) = Fin (15625 / 65536)"
  by (simp_all add: fl64_eval)

lemma fl64_more:
  "fl64 (3125 / 32) = Fin (3125 / 32)"
  "fl64 (3125 / 32768) = Fin (3125 / 32768)"
  "fl64 (78125 / 8192) = Fin (78125 / 8192)"
  "fl64 (1 / 10) = Fin (3602879701896397 / 36028797018963968)"
  by (simp_all add: fl64_eval)

lemma fl64_almost:
  "fl64 (24 / 25) = Fin (1080863910568919 / 1125899906842624)"
  "fl64 (27021597764222975 / 281474976710656) = Fin 96"
  "fl64 (1 / 15000) = Fin (2459565876494607 / 36893488147419103232)"
  "fl64 (1 / 250) = Fin (1152921504606847 / 288230376151711744)"
  "fl64 (1 / 100) = Fin (5764607523034235 / 576460752303423488)"
  "fl64 (625 / 64) = Fin (625 / 64)"
  "fl64 (625 / 65536) = Fin (625 / 65536)"
  "fl64 (15625 / 16384) = Fin (15625 / 16384)"
  by (simp_all add: fl64_eval)

lemmas upload_eval = uploadVideo_def exampleEnv_def oneFile_def Let_def
  buildRequestMetadata_def schedule_def standardMetadata_def comments_def call_hasOwnProperty_def property_def
  hasOwnProperty_def js_or_def onUploadProgress_def js_of_nat_def js_of_int_def
  fl64_0 fl64_1 fl64_numeral floor_rat_divide floor_rat_one_divide

subsection \<open>Examples\<close>

text \<open>A file of 1000 bytes sent in quarters, with an event before the first byte and one repeated.\<close>

lemma example_events:
  "map progress (reported (uploadVideo
       (exampleEnv 1000 [(0, 1), (250, 2), (250, 3), (500, 10), (750, 12), (1000, 20)])
       (constructor JNull) ''video.mp4'' [] True))
     = [Fin 25, Fin 50, Fin 75, Fin 100]"
  by (simp add: upload_eval fl64_fractions)

theorem progress_strictly_increasing_witness:
  "map progress (reported (uploadVideo
       (exampleEnv 1000 [(0, 1), (250, 2), (250, 3), (500, 10), (750, 12), (1000, 20)])
       (constructor JNull) ''video.mp4'' [] True))
     = [Fin 25, Fin 50, Fin 75, Fin 100] \<and>
   sorted_wrt (\<lambda>a b. js_gt b a) [Fin 25, Fin 50, Fin 75, Fin 100] \<and>
   distinct [Fin 25, Fin 50, Fin 75, Fin (100 :: rat)]"
  using progress_strictly_increasing
    [of "exampleEnv 1000 [(0, 1), (250, 2), (250, 3), (500, 10), (750, 12), (1000, 20)]"
        "constructor JNull" "''video.mp4''" "[]" True]
  unfolding example_events by simp

text \<open>An account with one channel, and an account with none.\<close>

theorem getUploadQuota_channel_witness:
  "listing ((exampleEnv 0 []) \<lparr> listing := oneChannel \<rparr>) (ChannelsList ''contentDetails,statistics'' True)
     = Inr (Some [JObj [(''id'', JStr ''UC123''),
                        (''statistics'', JObj [(''videoCount'', JStr ''42'')]),
                        (''contentDetails'', JObj [(''contentRatings'', JObj [])])]]) \<and>
   result (getUploadQuota ((exampleEnv 0 []) \<lparr> listing := oneChannel \<rparr>) (constructor JNull))
     = Inr (JObj [(''channelId'', JStr ''UC123''), (''totalVideos'', JStr ''42''),
                  (''quotaInfo'', JObj [])]) \<and>
   result (getUploadQuota ((exampleEnv 0 []) \<lparr> listing := noChannel \<rparr>) (constructor JNull))
     = Inl (Error ''Kein Kanal gefunden'')"
proof -
  have l: "listing ((exampleEnv 0 []) \<lparr> listing := oneChannel \<rparr>) (ChannelsList ''contentDetails,statistics'' True)
     = Inr (Some [JObj [(''id'', JStr ''UC123''),
                        (''statistics'', JObj [(''videoCount'', JStr ''42'')]),
                        (''contentDetails'', JObj [(''contentRatings'', JObj [])])]])"
    by (simp add: oneChannel_def)
  from getUploadQuota_channel
    [of "(exampleEnv 0 []) \<lparr> listing := oneChannel \<rparr>" "constructor JNull"
        "[(''id'', JStr ''UC123''), (''statistics'', JObj [(''videoCount'', JStr ''42'')]),
          (''contentDetails'', JObj [(''contentRatings'', JObj [])])]" "[]"
        "[(''videoCount'', JStr ''42'')]" "[(''contentRatings'', JObj [])]"]
  have one: "result (getUploadQuota ((exampleEnv 0 []) \<lparr> listing := oneChannel \<rparr>) (constructor JNull))
     = Inr (JObj [(''channelId'', JStr ''UC123''), (''totalVideos'', JStr ''42''),
                  (''quotaInfo'', JObj [])])"
    by (simp add: oneChannel_def property_def)
  from getUploadQuota_channel
    [of "(exampleEnv 0 []) \<lparr> listing := noChannel \<rparr>" "constructor JNull"]
  have none: "result (getUploadQuota ((exampleEnv 0 []) \<lparr> listing := noChannel \<rparr>) (constructor JNull))
     = Inl (Error ''Kein Kanal gefunden'')"
    by (simp add: noChannel_def)
  from l one none show ?thesis by simp
qed


theorem currentUpload_never_assigned_witness:
  "currentUpload (constructor JNull) = JNull \<and>
   currentUpload (instance_after (uploadVideo (exampleEnv 1000 [(500, 5), (1000, 9)]) (constructor JNull)
                                    ''video.mp4'' [] True)) = JNull"
  using currentUpload_never_assigned
    [of "exampleEnv 1000 [(500, 5), (1000, 9)]" "constructor JNull" "''video.mp4''" "[]" True JNull]
  by (simp add: constructor_def)

subsection \<open>The fields of a progress report\<close>

text \<open>Every object given to the callback comes from the handler on one of the events.\<close>

lemma reports_emitted:
  "info \<in> set (reports fileSize startTime cb lrp evts) \<Longrightarrow>
     \<exists>lrp0 lrp' evt. evt \<in> set evts \<and>
        onUploadProgress fileSize startTime cb lrp0 evt = (lrp', Some info)"
proof (induction evts arbitrary: lrp)
  case Nil
  then show ?case by simp
next
  case (Cons evt evts)
  obtain l' o' where h: "onUploadProgress fileSize startTime cb lrp evt = (l', o')"
    by (cases "onUploadProgress fileSize startTime cb lrp evt")
  show ?case
  proof (cases o')
    case None
    with h Cons.prems have "info \<in> set (reports fileSize startTime cb l' evts)"
      by simp
    from Cons.IH [OF this] show ?thesis
      by auto
  next
    case (Some i)
    with h Cons.prems have "info = i \<or> info \<in> set (reports fileSize startTime cb l' evts)"
      by simp
    then show ?thesis
    proof
      assume "info = i"
      with h Some have "onUploadProgress fileSize startTime cb lrp evt = (l', Some info)"
        by simp
      then show ?thesis
        by (intro exI [of _ lrp] exI [of _ l'] exI [of _ evt]) simp
    next
      assume "info \<in> set (reports fileSize startTime cb l' evts)"
      from Cons.IH [OF this] show ?thesis
        by auto
    qed
  qed
qed

text \<open>
  Claim C3, as the code has it. For every object given to the progress callback, with
  \<^verbatim>\<open>bytesPerMs\<close> the bytes read over the elapsed time: the status is \<^verbatim>\<open>'Uploading...'\<close>
  for a percentage below 95, \<^verbatim>\<open>'Fast fertig...'\<close> from 95 up to 100, and
  \<^verbatim>\<open>'Verarbeite Video...'\<close> from 100 on. From 100 percent on the remaining time is the
  message \<^verbatim>\<open>'YouTube verarbeitet dein Video...'\<close>, whatever the throughput; below that it
  is \<^verbatim>\<open>'Berechne...'\<close> exactly when \<^verbatim>\<open>bytesPerMs > 0\<close> is false, and otherwise the
  minutes and seconds of the remaining bytes divided by \<^verbatim>\<open>bytesPerMs\<close>. The speed is the
  number of megabytes per second times 100, rounded to an integer and divided by 100
  again, that is, rounded to two decimal places.
\<close>

theorem progress_report_fields:
  assumes emitted:
      "onUploadProgress fileSize startTime progressCallback lastReportedProgress (b, now) = (lrp', Some info)"
    and throughput:
      "bytesPerMs = js_div (js_of_nat b) (js_sub (js_of_int now) (js_of_int startTime))"
    and remaining:
      "remainingTimeMs = js_div (js_sub (js_of_nat fileSize) (js_of_nat b)) bytesPerMs"
    and megabytes:
      "megabytesPerSecond = js_div (js_div (js_mul bytesPerMs (Fin 1000)) (Fin 1024)) (Fin 1024)"
  shows
    "(\<forall>q. progress info = Fin q \<longrightarrow>
        progressInfo.status info =
          (if q < 95 then ''Uploading...''
           else if q < 100 then ''Fast fertig...''
           else ''Verarbeite Video...'')) \<and>
     (progress info = PInf \<longrightarrow> progressInfo.status info = ''Verarbeite Video...'') \<and>
     timeRemaining info =
       (if js_ge (progress info) (Fin 100) then [Lit ''YouTube verarbeitet dein Video...'']
        else if js_gt bytesPerMs (Fin 0)
        then [Lit ''Noch '', Num (Math_floor (js_div remainingTimeMs (Fin 60000))), Lit '' Min '',
              Num (Math_floor (js_div (js_mod remainingTimeMs (Fin 60000)) (Fin 1000))), Lit '' Sek'']
        else [Lit ''Berechne...'']) \<and>
     (js_ge (progress info) (Fin 100) \<longrightarrow>
        timeRemaining info = [Lit ''YouTube verarbeitet dein Video...'']) \<and>
     (\<not> js_ge (progress info) (Fin 100) \<longrightarrow>
        (timeRemaining info = [Lit ''Berechne...'']) = (\<not> js_gt bytesPerMs (Fin 0))) \<and>
     speed info =
       [Num (js_div (Math_round (js_mul megabytesPerSecond (Fin 100))) (Fin 100)), Lit '' MB/s''] \<and>
     (\<forall>x. js_mul megabytesPerSecond (Fin 100) = Fin x \<longrightarrow>
        speed info = [Num (fl64 (of_int \<lfloor>x + 1 / 2\<rfloor> / 100)), Lit '' MB/s''])"
proof -
  from emitted obtain p where i: "info = progressReport fileSize startTime p b now"
    by (auto simp: onUploadProgress_def Let_def split: if_splits)
  have lab: "progressInfo.status info =
          (if js_ge (progress info) (Fin 100) then ''Verarbeite Video...''
           else if js_ge (progress info) (Fin 95) then ''Fast fertig...''
           else ''Uploading...'')"
    unfolding i by (simp add: progressReport_def Let_def)
  have st: "\<forall>q. progress info = Fin q \<longrightarrow>
        progressInfo.status info =
          (if q < 95 then ''Uploading...''
           else if q < 100 then ''Fast fertig...''
           else ''Verarbeite Video...'')"
    by (auto simp: lab)
  have inf: "progress info = PInf \<longrightarrow> progressInfo.status info = ''Verarbeite Video...''"
    by (simp add: lab)
  have tr: "timeRemaining info =
       (if js_ge (progress info) (Fin 100) then [Lit ''YouTube verarbeitet dein Video...'']
        else if js_gt bytesPerMs (Fin 0)
        then [Lit ''Noch '', Num (Math_floor (js_div remainingTimeMs (Fin 60000))), Lit '' Min '',
              Num (Math_floor (js_div (js_mod remainingTimeMs (Fin 60000)) (Fin 1000))), Lit '' Sek'']
        else [Lit ''Berechne...''])"
    unfolding i throughput remaining by (simp add: progressReport_def Let_def)
  have sp: "speed info =
       [Num (js_div (Math_round (js_mul megabytesPerSecond (Fin 100))) (Fin 100)), Lit '' MB/s'']"
    unfolding i throughput megabytes by (simp add: progressReport_def Let_def)
  have two: "\<forall>x. js_mul megabytesPerSecond (Fin 100) = Fin x \<longrightarrow>
        speed info = [Num (fl64 (of_int \<lfloor>x + 1 / 2\<rfloor> / 100)), Lit '' MB/s'']"
    by (simp add: sp)
  from st inf tr sp two show ?thesis by simp
qed

text \<open>
  A quarter of 100 000 000 bytes after ten seconds: 2500 bytes per millisecond, thirty
  seconds left, 2.38 MB/s.
\<close>

lemma example_report:
  "onUploadProgress 100000000 0 True (Fin 0) (25000000, 10000) =
     (Fin 25,
      Some \<lparr> progress = Fin 25, bytesRead = Fin 25000000, bytesTotal = Fin 100000000,
             status = ''Uploading...'',
             timeRemaining = [Lit ''Noch '', Num (Fin 0), Lit '' Min '', Num (Fin 30), Lit '' Sek''],
             speed = [Num (Fin (2679641778285445 / 1125899906842624)), Lit '' MB/s''] \<rparr>)"
  by (simp add: upload_eval progressReport_def trunc_def fl64_fractions fl64_speed)

lemma example_throughput:
  "js_div (js_of_nat 25000000) (js_sub (js_of_int 10000) (js_of_int 0)) = Fin 2500"
  "js_div (js_sub (js_of_nat 100000000) (js_of_nat 25000000)) (Fin 2500) = Fin 30000"
  "js_div (js_div (js_mul (Fin 2500) (Fin 1000)) (Fin 1024)) (Fin 1024) = Fin (78125 / 32768)"
  "js_mul (Fin (78125 / 32768)) (Fin 100) = Fin (1953125 / 8192)"
  by (simp_all add: upload_eval fl64_fractions fl64_speed)

text \<open>
  At 96 percent of 1000 bytes, 0.01 MB/s; and a clock that was set back five
  milliseconds during the upload, so that the throughput is negative.
\<close>

lemma example_almost:
  "onUploadProgress 1000 0 True (Fin 75) (960, 96) =
     (Fin 96,
      Some \<lparr> progress = Fin 96, bytesRead = Fin 960, bytesTotal = Fin 1000,
             status = ''Fast fertig...'',
             timeRemaining = [Lit ''Noch '', Num (Fin 0), Lit '' Min '', Num (Fin 0), Lit '' Sek''],
             speed = [Num (Fin (5764607523034235 / 576460752303423488)), Lit '' MB/s''] \<rparr>)"
  by (simp add: upload_eval progressReport_def trunc_def fl64_fractions fl64_almost)

lemma example_clock_back:
  "onUploadProgress 1000 10 True (Fin 0) (500, 5) =
     (Fin 50,
      Some \<lparr> progress = Fin 50, bytesRead = Fin 500, bytesTotal = Fin 1000,
             status = ''Uploading...'',
             timeRemaining = [Lit ''Berechne...''],
             speed = [Num (Fin (- (3602879701896397 / 36028797018963968))), Lit '' MB/s''] \<rparr>)"
  by (simp add: upload_eval progressReport_def trunc_def fl64_fractions fl64_more fl64_minus
      floor_rat_minus_divide)

lemma example_clock_back_throughput:
  "js_div (js_of_nat 500) (js_sub (js_of_int 5) (js_of_int 10)) = Fin (- 100)"
  by (simp add: upload_eval fl64_minus)

theorem progress_report_fields_witness:
  "onUploadProgress 100000000 0 True (Fin 0) (25000000, 10000) =
     (Fin 25,
      Some \<lparr> progress = Fin 25, bytesRead = Fin 25000000, bytesTotal = Fin 100000000,
             status = ''Uploading...'',
             timeRemaining = [Lit ''Noch '', Num (Fin 0), Lit '' Min '', Num (Fin 30), Lit '' Sek''],
             speed = [Num (Fin (2679641778285445 / 1125899906842624)), Lit '' MB/s''] \<rparr>) \<and>
   js_gt (Fin 2500) (Fin 0) \<and>
   \<lfloor>(1953125 / 8192 + 1 / 2 :: rat)\<rfloor> = 238 \<and>
   fl64 (of_int 238 / 100) = Fin (2679641778285445 / 1125899906842624) \<and>
   onUploadProgress 1000 0 True (Fin 75) (960, 96) =
     (Fin 96,
      Some \<lparr> progress = Fin 96, bytesRead = Fin 960, bytesTotal = Fin 1000,
             status = ''Fast fertig...'',
             timeRemaining = [Lit ''Noch '', Num (Fin 0), Lit '' Min '', Num (Fin 0), Lit '' Sek''],
             speed = [Num (Fin (5764607523034235 / 576460752303423488)), Lit '' MB/s''] \<rparr>) \<and>
   onUploadProgress 1000 10 True (Fin 0) (500, 5) =
     (Fin 50,
      Some \<lparr> progress = Fin 50, bytesRead = Fin 500, bytesTotal = Fin 1000,
             status = ''Uploading...'',
             timeRemaining = [Lit ''Berechne...''],
             speed = [Num (Fin (- (3602879701896397 / 36028797018963968))), Lit '' MB/s''] \<rparr>) \<and>
   \<not> js_gt (Fin (- 100)) (Fin 0)"
proof -
  note fields = progress_report_fields
    [OF example_report example_throughput(1) [symmetric] example_throughput(2) [symmetric]
        example_throughput(3) [symmetric]]
  from fields have "\<forall>q. Fin 25 = Fin q \<longrightarrow>
      ''Uploading...'' =
          (if q < 95 then ''Uploading...''
           else if q < 100 then ''Fast fertig...''
           else ''Verarbeite Video...'')"
    by simp
  moreover
  note reversed = progress_report_fields
    [OF example_clock_back example_clock_back_throughput [symmetric] refl refl]
  from reversed have "([Lit ''Berechne...''] = [Lit ''Berechne...'']) = (\<not> js_gt (Fin (- 100)) (Fin 0))"
    by simp
  ultimately show ?thesis
    by (simp add: example_report example_almost example_clock_back floor_rat_divide fl64_speed)
qed

text \<open>
  The claim as stated fails in two ways. Every report carries the labels above, not
  the texts \<^verbatim>\<open>'Uploading'\<close>, \<^verbatim>\<open>'Almost done'\<close> and \<^verbatim>\<open>'Processing'\<close>. And at 100 percent
  the processing message stands although the throughput is not positive: a file of 1000
  bytes whose upload starts when the clock reads 1000, with a quarter read at 1010 and
  the whole at 995, the clock having been set back in between.
\<close>

lemma fl64_back:
  "fl64 (1 / 2000) = Fin (1152921504606847 / 2305843009213693952)"
  "fl64 (3 / 100) = Fin (1080863910568919 / 36028797018963968)"
  "fl64 (1 / 50) = Fin (5764607523034235 / 288230376151711744)"
  "fl64 (19 / 100) = Fin (3422735716801577 / 18014398509481984)"
  "fl64 (3125 / 128) = Fin (3125 / 128)"
  "fl64 (3125 / 131072) = Fin (3125 / 131072)"
  "fl64 (3125 / 16) = Fin (3125 / 16)"
  "fl64 (3125 / 16384) = Fin (3125 / 16384)"
  "fl64 (78125 / 4096) = Fin (78125 / 4096)"
  by (simp_all add: fl64_eval)

theorem progress_labels_counterexample:
  "reported (uploadVideo ((exampleEnv 1000 [(250, 1010), (1000, 995)]) \<lparr> clock := 1000 \<rparr>)
               (constructor JNull) ''video.mp4'' [] True) =
     [\<lparr> progress = Fin 25, bytesRead = Fin 250, bytesTotal = Fin 1000,
        status = ''Uploading...'',
        timeRemaining = [Lit ''Noch '', Num (Fin 0), Lit '' Min '', Num (Fin 0), Lit '' Sek''],
        speed = [Num (Fin (5764607523034235 / 288230376151711744)), Lit '' MB/s''] \<rparr>,
      \<lparr> progress = Fin 100, bytesRead = Fin 1000, bytesTotal = Fin 1000,
        status = ''Verarbeite Video...'',
        timeRemaining = [Lit ''YouTube verarbeitet dein Video...''],
        speed = [Num (Fin (- (3422735716801577 / 18014398509481984))), Lit '' MB/s''] \<rparr>] \<and>
   ''Uploading...'' \<noteq> ''Uploading'' \<and>
   ''Verarbeite Video...'' \<noteq> ''Processing'' \<and>
   js_div (js_of_nat 1000) (js_sub (js_of_int 995) (js_of_int 1000)) = Fin (- 200) \<and>
   \<not> js_gt (Fin (- 200)) (Fin 0) \<and>
   [Lit ''YouTube verarbeitet dein Video...''] \<noteq> [Lit ''Berechne...'']"
  by (simp add: upload_eval progressReport_def trunc_def fl64_fractions fl64_speed fl64_back
      fl64_minus floor_rat_minus_divide)

subsection \<open>A file of size zero\<close>

lemma percent_of_nothing:
  "Math_round (js_mul (js_div x (js_of_nat 0)) (Fin 100)) \<in> {NaN, PInf, NInf}"
  by (cases x) (auto simp: js_of_nat_0)

lemma percent_zero_of_nothing:
  "Math_round (js_mul (js_div (js_of_nat 0) (js_of_nat 0)) (Fin 100)) = NaN"
  by (simp add: js_of_nat_0)

lemma not_above_PInf: "\<not> js_gt x PInf"
  by (cases x) auto

lemma reports_after_PInf: "reports fileSize startTime cb PInf evts = []"
  by (induction evts) (auto simp: onUploadProgress_def Let_def not_above_PInf)

lemma reports_zero_size:
  "length (reports 0 startTime cb (Fin 0) evts) \<le> 1 \<and>
   (\<forall>info \<in> set (reports 0 startTime cb (Fin 0) evts). progress info = PInf)"
proof (induction evts)
  case Nil
  then show ?case by simp
next
  case (Cons evt evts)
  from percent_of_nothing [of "js_of_nat (fst evt)"] Cons show ?case
    by (auto simp: onUploadProgress_def Let_def reports_after_PInf)
qed

lemma reports_zero_bytes:
  "\<forall>evt \<in> set evts. fst evt = 0 \<Longrightarrow> reports 0 startTime cb lrp evts = []"
  by (induction evts) (auto simp: onUploadProgress_def Let_def percent_zero_of_nothing)

text \<open>
  Claim C10, as the code has it. For a file of size zero, an event with no bytes read
  computes \<open>NaN\<close> and is never reported; an event with bytes read computes
  \<^verbatim>\<open>Infinity\<close>, which is greater than the last value once. So the callback is called
  at most once over the upload, with the percentage \<^verbatim>\<open>Infinity\<close>, and never when
  every event has read no bytes.
\<close>

theorem zero_size_reports:
  assumes "files env videoPath = Some 0"
  shows "length (reported (uploadVideo env this videoPath metadata progressCallback)) \<le> 1 \<and>
         (\<forall>info \<in> set (reported (uploadVideo env this videoPath metadata progressCallback)).
            progress info = PInf) \<and>
         ((\<forall>evt \<in> set (events env). fst evt = 0) \<longrightarrow>
            reported (uploadVideo env this videoPath metadata progressCallback) = [])"
proof (cases "buildRequestMetadata (dateParse env) metadata")
  case (Inl e)
  with assms show ?thesis by (simp add: uploadVideo_def failed_def)
next
  case (Inr r)
  with assms have "reported (uploadVideo env this videoPath metadata progressCallback)
      = reports 0 (clock env) progressCallback (Fin 0) (events env)"
    by (simp add: uploadVideo_def Let_def)
  then show ?thesis
    using reports_zero_size [of "clock env" progressCallback "events env"]
      reports_zero_bytes [of "events env" "clock env" progressCallback "Fin 0"]
    by simp
qed

text \<open>
  The claim as stated fails when an event reports bytes: the file of size zero with the
  events 0, 5 and 7 bytes has one report, at 5 bytes.
\<close>

theorem zero_size_counterexample:
  "files (exampleEnv 0 [(0, 1), (5, 2), (7, 3)]) ''video.mp4'' = Some 0 \<and>
   reported (uploadVideo (exampleEnv 0 [(0, 1), (5, 2), (7, 3)]) (constructor JNull) ''video.mp4'' [] True)
     = [\<lparr> progress = PInf, bytesRead = Fin 5, bytesTotal = Fin 0,
          status = ''Verarbeite Video...'',
          timeRemaining = [Lit ''YouTube verarbeitet dein Video...''],
          speed = [Num (Fin 0), Lit '' MB/s''] \<rparr>]"
  by (simp add: upload_eval progressReport_def fl64_fractions fl64_slow)

theorem zero_size_reports_witness:
  "files (exampleEnv 0 [(0, 1), (0, 2)]) ''video.mp4'' = Some 0 \<and>
   fst (0 :: nat, 1 :: int) = 0 \<and> fst (0 :: nat, 2 :: int) = 0 \<and>
   reported (uploadVideo (exampleEnv 0 [(0, 1), (0, 2)]) (constructor JNull) ''video.mp4'' [] True) = [] \<and>
   length (reported (uploadVideo (exampleEnv 0 [(0, 1), (5, 2), (7, 3)]) (constructor JNull)
                       ''video.mp4'' [] True)) \<le> 1"
  using zero_size_reports [OF example_file, of "[(0, 1), (0, 2)]" "constructor JNull" "[]" True]
    zero_size_reports [OF example_file, of "[(0, 1), (5, 2), (7, 3)]" "constructor JNull" "[]" True]
  by (simp add: exampleEnv_def oneFile_def)

end
